theory Spec2Isabelle
  imports Complex_Main "HOL-Library.AList"
begin

section \<open>Python values\<close>

text \<open>
  A character is a code point below 256, so a text is a Python string of such code
  points; strings with code points beyond are outside the model.
  A Python float is a finite binary64 value (a rational), an infinity or NaN.
  A value decoded by \<open>json.loads\<close> is one of the JSON kinds; a dict is an association
  list in insertion order, assignment to a key being \<open>AList.update\<close> (in place when
  the key exists, at the end otherwise).
\<close>

datatype pyfloat = Finite rat | PInf | NInf | NaN

datatype json =
    JNull
  | JBool bool
  | JInt int
  | JFloat pyfloat
  | JStr string
  | JArr "json list"
  | JObj "(string \<times> json) list"

type_synonym pydict = "(string \<times> json) list"

datatype exn =
    ValueError | TypeError | OverflowError | RecursionError | UnicodeDecodeError | ProviderError

section \<open>String operations\<close>

text \<open>\<open>str.find(c)\<close>: the first index of the character, or -1.\<close>

fun find_from :: "char \<Rightarrow> string \<Rightarrow> nat \<Rightarrow> int" where
  "find_from c [] i = - 1"
| "find_from c (x # xs) i = (if x = c then int i else find_from c xs (Suc i))"

definition py_find :: "char \<Rightarrow> string \<Rightarrow> int" where
  "py_find c s = find_from c s 0"

text \<open>\<open>str.rfind(c)\<close>: the last index of the character, or -1.\<close>

fun rfind_from :: "char \<Rightarrow> string \<Rightarrow> nat \<Rightarrow> int \<Rightarrow> int" where
  "rfind_from c [] i found = found"
| "rfind_from c (x # xs) i found = rfind_from c xs (Suc i) (if x = c then int i else found)"

definition py_rfind :: "char \<Rightarrow> string \<Rightarrow> int" where
  "py_rfind c s = rfind_from c s 0 (- 1)"

text \<open>The slice \<open>s[a:b]\<close> for indices that are not negative.\<close>

definition py_slice :: "string \<Rightarrow> int \<Rightarrow> int \<Rightarrow> string" where
  "py_slice s a b = take (nat b - nat a) (drop (nat a) s)"

section \<open>Parsing the model's response\<close>

text \<open>
  What \<open>json.loads\<close> of the standard library does with the slice, which is empty or
  starts with an opening brace: it returns the object the text denotes, raises
  \<open>JSONDecodeError\<close>, or raises another exception (\<open>RecursionError\<close> on deep nesting,
  a plain \<open>ValueError\<close> on an integer of more than 4300 digits). It is a parameter of
  \<open>parse_ai_response\<close>, whose handler catches \<open>JSONDecodeError\<close> only.
\<close>

datatype loads_result = Loaded pydict | JSONDecodeError | Raised exn

definition parse_ai_response ::
    "(string \<Rightarrow> loads_result) \<Rightarrow> string \<Rightarrow> exn + pydict option" where
  "parse_ai_response json_loads response_text =
     (let json_start = py_find (CHR ''{'') response_text;
          json_end = py_rfind (CHR ''}'') response_text + 1
      in if json_start = - 1 \<or> json_end = 0 then Inr None
         else (case json_loads (py_slice response_text json_start json_end) of
                 Loaded d \<Rightarrow> Inr (Some d)
               | JSONDecodeError \<Rightarrow> Inr None
               | Raised e \<Rightarrow> Inl e))"

text \<open>
  The contract in the spec's words: the first opening brace and the last closing brace,
  as positions in the text.
\<close>

definition first_index :: "char \<Rightarrow> string \<Rightarrow> nat \<Rightarrow> bool" where
  "first_index c s i \<longleftrightarrow> i < length s \<and> s ! i = c \<and> (\<forall>k<i. s ! k \<noteq> c)"

definition last_index :: "char \<Rightarrow> string \<Rightarrow> nat \<Rightarrow> bool" where
  "last_index c s j \<longleftrightarrow> j < length s \<and> s ! j = c \<and> (\<forall>k<length s. j < k \<longrightarrow> s ! k \<noteq> c)"

text \<open>
  Two replies that \<open>json.loads\<close> does not answer with \<open>JSONDecodeError\<close>: an object
  whose value is 1200 nested lists, and an object whose value is an integer of 5000
  digits.
\<close>

definition nested_reply :: string where
  \<open>nested_reply =
     CHR ''{'' # (''"a": '' @ replicate 1200 (CHR ''['') @ replicate 1200 (CHR '']'')) @ ''}''\<close>

definition long_integer_reply :: string where
  \<open>long_integer_reply = CHR ''{'' # (''"a": '' @ replicate 5000 (CHR ''1'')) @ ''}''\<close>

text \<open>
  \<open>json.loads\<close> at these two replies. The definition says nothing true of any other
  text and is applied to none.
\<close>

definition nesting_loads :: "string \<Rightarrow> loads_result" where
  "nesting_loads s =
     (if s = nested_reply then Raised RecursionError
      else if s = long_integer_reply then Raised ValueError
      else JSONDecodeError)"

section \<open>Numbers from text\<close>

text \<open>
  \<open>str.strip()\<close> removes the characters for which \<open>str.isspace\<close> holds. \<open>int\<close> and
  \<open>float\<close> skip less at the two ends of their argument: the whitespace of C, and the
  spaces that are not ASCII (which they first turn into blanks).
\<close>

definition is_space :: "char \<Rightarrow> bool" where
  "is_space c \<longleftrightarrow> c \<in> set [CHR '' '', CHR 0x09, CHR 0x0A, CHR 0x0B, CHR 0x0C, CHR 0x0D,
     CHR 0x1C, CHR 0x1D, CHR 0x1E, CHR 0x1F, CHR 0x85, CHR 0xA0]"

definition py_strip :: "string \<Rightarrow> string" where
  "py_strip s = rev (dropWhile is_space (rev (dropWhile is_space s)))"

definition c_space :: "char \<Rightarrow> bool" where
  "c_space c \<longleftrightarrow> c \<in> set [CHR '' '', CHR 0x09, CHR 0x0A, CHR 0x0B, CHR 0x0C, CHR 0x0D,
     CHR 0x85, CHR 0xA0]"

definition c_strip :: "string \<Rightarrow> string" where
  "c_strip s = rev (dropWhile c_space (rev (dropWhile c_space s)))"

text \<open>
  \<open>str.lower()\<close> on code points below 256: the ASCII capitals and the capitals from
  \<open>0xC0\<close> to \<open>0xDE\<close> other than the multiplication sign move up by 32.
\<close>

definition lower_char :: "char \<Rightarrow> char" where
  "lower_char c =
     (let n = (of_char c :: nat)
      in if (65 \<le> n \<and> n \<le> 90) \<or> (192 \<le> n \<and> n \<le> 222 \<and> n \<noteq> 215)
         then char_of (n + 32) else c)"

definition py_lower :: "string \<Rightarrow> string" where
  "py_lower s = map lower_char s"

definition is_digit :: "char \<Rightarrow> bool" where
  "is_digit c \<longleftrightarrow> c \<in> set ''0123456789''"

definition digit_val :: "char \<Rightarrow> nat" where
  "digit_val c = of_char c - 48"

definition decimal_val :: "string \<Rightarrow> nat" where
  "decimal_val ds = foldl (\<lambda>a c. 10 * a + digit_val c) 0 ds"

text \<open>
  The longest prefix that is a digit part (digits, with single underscores between
  digits), returned without its underscores, and the rest of the text.
\<close>

fun digitpart :: "string \<Rightarrow> string \<times> string" where
  "digitpart (c # u # d # r) =
     (if is_digit c then
        (if is_digit u then (case digitpart (u # d # r) of (ds, rest) \<Rightarrow> (c # ds, rest))
         else if u = CHR ''_'' \<and> is_digit d
           then (case digitpart (d # r) of (ds, rest) \<Rightarrow> (c # ds, rest))
         else ([c], u # d # r))
      else ([], c # u # d # r))"
| "digitpart [c, u] =
     (if is_digit c then (if is_digit u then ([c, u], []) else ([c], [u])) else ([], [c, u]))"
| "digitpart [c] = (if is_digit c then ([c], []) else ([], [c]))"
| "digitpart [] = ([], [])"

text \<open>An optional sign: whether it is a minus, and the rest.\<close>

definition split_sign :: "string \<Rightarrow> bool \<times> string" where
  "split_sign s = (case s of
      c # r \<Rightarrow> if c = CHR ''-'' then (True, r) else if c = CHR ''+'' then (False, r) else (False, s)
    | [] \<Rightarrow> (False, s))"

text \<open>
  The exponent of a float literal: the text after the mantissa is empty (exponent 0) or
  \<open>e\<close>, an optional sign and a digit part.
\<close>

definition float_exponent :: "string \<Rightarrow> int option" where
  "float_exponent s = (case s of
      [] \<Rightarrow> Some 0
    | c # r \<Rightarrow>
        if c = CHR ''e'' \<or> c = CHR ''E'' then
          (case split_sign r of (neg, r') \<Rightarrow>
            (case digitpart r' of (ds, rest) \<Rightarrow>
              if ds \<noteq> [] \<and> rest = []
              then Some (if neg then - int (decimal_val ds) else int (decimal_val ds))
              else None))
        else None)"

text \<open>
  The nearest binary64 value of the fraction \<open>num / den\<close>, a tie going to the even
  significand. \<open>bit_length n\<close> is the number of binary digits of \<open>n\<close>;
  \<open>binary_exponent\<close> is the \<open>e\<close> with \<open>2 ^ e \<le> num / den < 2 ^ (e + 1)\<close>; the
  significand has 53 bits, and below \<open>2 ^ - 1022\<close> the spacing stays \<open>2 ^ - 1074\<close>.
\<close>

function bit_length :: "nat \<Rightarrow> nat" where
  "bit_length n = (if n = 0 then 0 else Suc (bit_length (n div 2)))"
  by pat_completeness auto
termination
  by (relation "measure id") auto

declare bit_length.simps [simp del]

definition round_half_even_div :: "nat \<Rightarrow> nat \<Rightarrow> nat" where
  "round_half_even_div n d =
     (let f = n div d; r = n mod d
      in if 2 * r < d then f else if d < 2 * r then f + 1 else if even f then f else f + 1)"

definition binary_exponent :: "nat \<Rightarrow> nat \<Rightarrow> int" where
  "binary_exponent num den =
     (let e0 = int (bit_length num) - int (bit_length den)
      in if (if 0 \<le> e0 then num < den * 2 ^ nat e0 else num * 2 ^ nat (- e0) < den)
         then e0 - 1 else e0)"

definition nearest_binary64 :: "nat \<Rightarrow> nat \<Rightarrow> rat" where
  "nearest_binary64 num den =
     (if num = 0 then 0
      else (let s = max (binary_exponent num den) (- 1022) - 52
            in if 0 \<le> s
               then of_nat (round_half_even_div num (den * 2 ^ nat s) * 2 ^ nat s)
               else of_nat (round_half_even_div (num * 2 ^ nat (- s)) den)
                      / of_nat (2 ^ nat (- s))))"

text \<open>
  The least magnitude that rounds beyond the largest binary64 value,
  \<open>2 ^ 1024 - 2 ^ 970\<close>, written out: from there on the float is an infinity.
\<close>

definition float_overflow_bound :: nat where
  "float_overflow_bound =
     179769313486231580793728971405303415079934132710037826936173778980444968292764750946649017977587207096330286416692887910946555547851940402630657488671505820681908902000708383676273854845817711531764475730270069855571366959622842914819860834936475292719074168444365510704342711559699508093042880177904174497792"

definition float_of_fraction :: "bool \<Rightarrow> nat \<Rightarrow> nat \<Rightarrow> pyfloat" where
  "float_of_fraction neg num den =
     (if float_overflow_bound * den \<le> num then (if neg then NInf else PInf)
      else Finite (if neg then - nearest_binary64 num den else nearest_binary64 num den))"

text \<open>
  A decimal literal: digits, an optional point and digits (one of the two parts may be
  missing), an optional exponent. Its value is the fraction with the digits as
  numerator, scaled by the power of ten.
\<close>

definition float_number :: "bool \<Rightarrow> string \<Rightarrow> pyfloat option" where
  "float_number neg s =
     (case digitpart s of (ip, r1) \<Rightarrow>
        (case (case r1 of
                 c # r \<Rightarrow> if c = CHR ''.'' then (case digitpart r of (fp, r2) \<Rightarrow> (fp, r2))
                          else ([], r1)
               | [] \<Rightarrow> ([], r1)) of
           (fp, r2) \<Rightarrow>
             if ip = [] \<and> fp = [] then None
             else (case float_exponent r2 of
                 None \<Rightarrow> None
               | Some e \<Rightarrow>
                   (let ex = e - int (length fp)
                    in Some (float_of_fraction neg
                         (decimal_val (ip @ fp) * 10 ^ nat ex) (10 ^ nat (- ex)))))))"

text \<open>\<open>float(s)\<close> for a string; \<open>None\<close> is its \<open>ValueError\<close>.\<close>

definition py_float :: "string \<Rightarrow> pyfloat option" where
  "py_float s =
     (case split_sign (c_strip s) of (neg, body) \<Rightarrow>
        if py_lower body = ''inf'' \<or> py_lower body = ''infinity''
          then Some (if neg then NInf else PInf)
        else if py_lower body = ''nan'' then Some NaN
        else float_number neg body)"

text \<open>
  \<open>round(x)\<close> of a float: the nearest integer, a tie going to the even one;
  \<open>ValueError\<close> for NaN and \<open>OverflowError\<close> for an infinity.
\<close>

definition round_half_even :: "rat \<Rightarrow> int" where
  "round_half_even x =
     (let f = \<lfloor>x\<rfloor>; d = x - of_int f
      in if d < 1 / 2 then f else if 1 / 2 < d then f + 1 else if even f then f else f + 1)"

definition py_round :: "pyfloat \<Rightarrow> exn + int" where
  "py_round x = (case x of
      Finite q \<Rightarrow> Inr (round_half_even q)
    | NaN \<Rightarrow> Inl ValueError
    | PInf \<Rightarrow> Inl OverflowError
    | NInf \<Rightarrow> Inl OverflowError)"

text \<open>\<open>str(n)\<close> for an integer.\<close>

function str_nat :: "nat \<Rightarrow> string" where
  "str_nat n = (if n < 10 then [''0123456789'' ! n]
     else str_nat (n div 10) @ [''0123456789'' ! (n mod 10)])"
  by pat_completeness auto
termination
  by (relation "measure id") auto

declare str_nat.simps [simp del]

definition py_str_int :: "int \<Rightarrow> string" where
  "py_str_int n = (if n < 0 then CHR ''-'' # str_nat (nat (- n)) else str_nat (nat n))"

section \<open>Initial extraction\<close>

definition relevance_key :: string where
  "relevance_key = ''Relevance Score (1-10)''"

text \<open>
  The statements of the inner \<open>try\<close> up to \<open>round(score)\<close>: a string loses what
  follows its first slash and goes through \<open>strip\<close> and \<open>float\<close>; \<open>round\<close> of an
  integer or a boolean is the integer; \<open>round\<close> of \<open>None\<close>, a list or a dict is a
  \<open>TypeError\<close>.
\<close>

definition round_score :: "json \<Rightarrow> exn + int" where
  "round_score score = (case score of
      JStr s \<Rightarrow>
        (let s1 = (if CHR ''/'' \<in> set s then takeWhile (\<lambda>c. c \<noteq> CHR ''/'') s else s)
         in case py_float (py_strip s1) of
              None \<Rightarrow> Inl ValueError
            | Some x \<Rightarrow> py_round x)
    | JInt n \<Rightarrow> Inr n
    | JBool b \<Rightarrow> Inr (if b then 1 else 0)
    | JFloat x \<Rightarrow> py_round x
    | JNull \<Rightarrow> Inl TypeError
    | JArr xs \<Rightarrow> Inl TypeError
    | JObj d \<Rightarrow> Inl TypeError)"

text \<open>
  The validation of the relevance score, with its \<open>except (ValueError, TypeError)\<close>:
  any other exception leaves the block.
\<close>

definition validate_relevance :: "pydict \<Rightarrow> exn + pydict" where
  "validate_relevance extracted_data =
     (case map_of extracted_data relevance_key of
        None \<Rightarrow> Inr extracted_data
      | Some score \<Rightarrow>
          (case round_score score of
             Inr r \<Rightarrow>
               Inr (AList.update relevance_key (JStr (py_str_int (max 1 (min 10 r)))) extracted_data)
           | Inl e \<Rightarrow>
               if e = ValueError \<or> e = TypeError
               then Inr (AList.update relevance_key (JStr ''3'') extracted_data)
               else Inl e))"

text \<open>
  \<open>extract_initial_details_with_ai\<close>, from the model's answer to the prompt (its text,
  or the exception the call raised). The outer \<open>except Exception\<close> turns every
  exception into \<open>None\<close>. An empty dict is falsy and is returned as it is.
\<close>

definition extract_initial_details_with_ai ::
    "(string \<Rightarrow> loads_result) \<Rightarrow> exn + string \<Rightarrow> pydict option" where
  "extract_initial_details_with_ai json_loads response =
     (case response of
        Inl e \<Rightarrow> None
      | Inr text \<Rightarrow>
          (case parse_ai_response json_loads text of
             Inl e \<Rightarrow> None
           | Inr None \<Rightarrow> None
           | Inr (Some extracted_data) \<Rightarrow>
               if extracted_data = [] then Some extracted_data
               else (case validate_relevance extracted_data of
                       Inl e \<Rightarrow> None
                     | Inr d \<Rightarrow> Some d)))"

text \<open>Four replies of the model, each an object with a relevance score.\<close>

definition reply_8_of_10 :: string where
  \<open>reply_8_of_10 = ''{"Role Title": "Intern", "Relevance Score (1-10)": "8/10"}''\<close>

definition reply_11 :: string where
  \<open>reply_11 = ''{"Role Title": "Intern", "Relevance Score (1-10)": "11"}''\<close>

definition reply_abc :: string where
  \<open>reply_abc = ''{"Role Title": "Intern", "Relevance Score (1-10)": "abc"}''\<close>

definition reply_inf :: string where
  \<open>reply_inf = ''{"Role Title": "Intern", "Relevance Score (1-10)": "inf"}''\<close>

text \<open>
  \<open>json.loads\<close> at these four replies. The definition says nothing true of any other
  text and is applied to none.
\<close>

definition score_loads :: "string \<Rightarrow> loads_result" where
  "score_loads s =
     (if s = reply_8_of_10
        then Loaded [(''Role Title'', JStr ''Intern''), (relevance_key, JStr ''8/10'')]
      else if s = reply_11
        then Loaded [(''Role Title'', JStr ''Intern''), (relevance_key, JStr ''11'')]
      else if s = reply_abc
        then Loaded [(''Role Title'', JStr ''Intern''), (relevance_key, JStr ''abc'')]
      else if s = reply_inf
        then Loaded [(''Role Title'', JStr ''Intern''), (relevance_key, JStr ''inf'')]
      else JSONDecodeError)"

section \<open>The retention store\<close>

text \<open>
  \<open>int(s, 16)\<close> for a string: the whitespace that \<open>int\<close> skips at both ends
  (\<open>c_strip\<close>: the separators \<open>0x1C\<close> to \<open>0x1F\<close> are not skipped), an optional sign, an
  optional \<open>0x\<close> prefix, then hexadecimal digits with single underscores between digits
  (one may follow the prefix). \<open>None\<close> is its \<open>ValueError\<close>.
\<close>

definition is_hex :: "char \<Rightarrow> bool" where
  "is_hex c \<longleftrightarrow> c \<in> set ''0123456789abcdefABCDEF''"

definition hex_val :: "char \<Rightarrow> nat" where
  "hex_val c = (if is_digit c then of_char c - 48
     else if c \<in> set ''abcdef'' then of_char c - 87 else of_char c - 55)"

fun hexpart :: "string \<Rightarrow> string option" where
  "hexpart [] = None"
| "hexpart [c] = (if is_hex c then Some [c] else None)"
| "hexpart (c # u # r) =
     (if is_hex c then
        (if u = CHR ''_'' then map_option (Cons c) (hexpart r)
         else map_option (Cons c) (hexpart (u # r)))
      else None)"

definition strip_hex_prefix :: "string \<Rightarrow> string" where
  "strip_hex_prefix s = (case s of
      z # x # r \<Rightarrow>
        if z = CHR ''0'' \<and> (x = CHR ''x'' \<or> x = CHR ''X'')
        then (case r of u # r' \<Rightarrow> if u = CHR ''_'' then r' else r | [] \<Rightarrow> r)
        else s
    | _ \<Rightarrow> s)"

definition py_int16 :: "string \<Rightarrow> int option" where
  "py_int16 s =
     (case split_sign (c_strip s) of (neg, body) \<Rightarrow>
        (case hexpart (strip_hex_prefix body) of
           None \<Rightarrow> None
         | Some ds \<Rightarrow>
             (let v = int (foldl (\<lambda>a c. 16 * a + hex_val c) 0 ds)
              in Some (if neg then - v else v))))"

text \<open>
  \<open>get_email_age_days\<close>. The shift is a floor division by \<open>2 ^ 16\<close>. The division by
  \<open>1000.0\<close> converts the integer to a float, which raises \<open>OverflowError\<close> beyond the
  binary64 range; that exception is not among those the function catches. For a
  timestamp that converts, the result is the float
  \<open>(time.time() - timestamp_ms / 1000.0) / (24 * 60 * 60)\<close>, a finite number: it is the
  parameter \<open>age_of\<close> applied to the timestamp, so that neither the clock nor the
  rounding of binary64 is fixed here, and the clock does not advance during one load.
\<close>

definition int_fits_float :: "int \<Rightarrow> bool" where
  "int_fits_float n \<longleftrightarrow> \<bar>n\<bar> < int float_overflow_bound"

definition get_email_age_days :: "(int \<Rightarrow> rat) \<Rightarrow> string \<Rightarrow> exn + rat" where
  "get_email_age_days age_of message_id =
     (case py_int16 message_id of
        None \<Rightarrow> Inr 0
      | Some n \<Rightarrow>
          (let timestamp_ms = n div 2 ^ 16
           in if int_fits_float timestamp_ms
              then Inr (age_of timestamp_ms)
              else Inl OverflowError))"

text \<open>
  The age arithmetic without rounding, at a clock reading of \<open>now\<close> seconds. It serves
  in the examples, whose ages are far from the retention value.
\<close>

definition clock_age :: "rat \<Rightarrow> int \<Rightarrow> rat" where
  "clock_age now timestamp_ms = (now - of_int timestamp_ms / 1000) / (24 * 60 * 60)"

text \<open>
  The backing file: absent (\<open>None\<close>), or its content. The content is one of: a
  content on which reading or parsing raises an exception other than
  \<open>JSONDecodeError\<close> (\<open>UnicodeDecodeError\<close> for bytes that are not a text in the
  encoding of \<open>open\<close>, \<open>ValueError\<close> for an integer literal beyond the digit limit,
  \<open>RecursionError\<close> for deep nesting); a text that \<open>json.load\<close> rejects with
  \<open>JSONDecodeError\<close>; a JSON value that is not iterable (\<open>null\<close>, a number, \<open>true\<close>,
  \<open>false\<close>), on which the comprehension raises \<open>TypeError\<close>; a JSON array of strings,
  which is what this program writes. Other JSON values (an array with a member that is
  not a string, an object, a string) are outside this model. A Python set of
  identifiers is a list without duplicates; its order stands for the unspecified order
  of \<open>list(a_set)\<close>. Writing the file is taken to succeed.
\<close>

datatype file_content = ReadRaises exn | Unparsable | NotIterable | IdList "string list"

text \<open>The set comprehension of \<open>load_processed_emails\<close>: the first exception ends it.\<close>

fun recent_ids :: "(int \<Rightarrow> rat) \<Rightarrow> rat \<Rightarrow> string list \<Rightarrow> exn + string list" where
  "recent_ids age_of retention_days [] = Inr []"
| "recent_ids age_of retention_days (msg_id # ids) =
     (case get_email_age_days age_of msg_id of
        Inl e \<Rightarrow> Inl e
      | Inr age \<Rightarrow>
          (case recent_ids age_of retention_days ids of
             Inl e \<Rightarrow> Inl e
           | Inr rest \<Rightarrow> Inr (if age < retention_days then List.insert msg_id rest else rest)))"

text \<open>\<open>load_processed_emails\<close>: the returned set (or the exception) and the file afterwards.\<close>

definition load_processed_emails ::
    "(int \<Rightarrow> rat) \<Rightarrow> rat \<Rightarrow> file_content option \<Rightarrow> (exn + string list) \<times> file_content option" where
  "load_processed_emails age_of retention_days file =
     (case file of
        None \<Rightarrow> (Inr [], file)
      | Some (ReadRaises e) \<Rightarrow> (Inl e, file)
      | Some Unparsable \<Rightarrow> (Inr [], file)
      | Some NotIterable \<Rightarrow> (Inl TypeError, file)
      | Some (IdList processed_ids) \<Rightarrow>
          (case recent_ids age_of retention_days processed_ids of
             Inl e \<Rightarrow> (Inl e, file)
           | Inr recent \<Rightarrow>
               (Inr recent,
                if length recent \<noteq> length processed_ids then Some (IdList recent) else file)))"

text \<open>\<open>save_processed_email\<close>: the set and the file afterwards.\<close>

definition save_processed_email ::
    "string \<Rightarrow> string list \<Rightarrow> string list \<times> file_content option" where
  "save_processed_email email_id processed_ids =
     (let ids = (if email_id \<in> set processed_ids then processed_ids else processed_ids @ [email_id])
      in (ids, Some (IdList ids)))"

section \<open>Merging an update into a row\<close>

text \<open>
  The update path of \<open>main\<close> reads the header row and the row of the thread, builds a
  dictionary from them, merges the model's answer into a copy and writes the row back.
  The cells that the sheet returns are strings. The dictionary comprehension: a header
  that occurs twice keeps its first position and takes the later value.
\<close>

definition original_data_dict :: "string list \<Rightarrow> string list \<Rightarrow> pydict" where
  "original_data_dict column_headers row_values =
     foldl (\<lambda>d (i, header).
              AList.update header (JStr (if i < length row_values then row_values ! i else [])) d)
       [] (enumerate 0 column_headers)"

text \<open>\<open>list.index\<close>: the first position; \<open>None\<close> is its \<open>ValueError\<close>.\<close>

fun index_of :: "'a \<Rightarrow> 'a list \<Rightarrow> nat option" where
  "index_of x [] = None"
| "index_of x (y # ys) = (if x = y then Some 0 else map_option Suc (index_of x ys))"

text \<open>
  The loop over \<open>updated_data_json.items()\<close>, on the triple of \<open>merged_data\<close>,
  \<open>has_changed\<close> and \<open>cells_to_format\<close>. The items of a dictionary have distinct keys,
  so the value compared with \<open>new_value\<close> is always a cell of the sheet, a string; on a
  string and a JSON value the \<open>!=\<close> of Python is the inequality of \<open>json\<close>.
\<close>

fun merge_items ::
    "string list \<Rightarrow> nat \<Rightarrow> (string \<times> json) list \<Rightarrow> pydict \<times> bool \<times> (nat \<times> nat) list
      \<Rightarrow> pydict \<times> bool \<times> (nat \<times> nat) list" where
  "merge_items column_headers row [] state = state"
| "merge_items column_headers row ((key, new_value) # items)
      (merged_data, has_changed, cells_to_format) =
     (if key \<in> set (map fst merged_data) \<and> new_value \<noteq> JStr ''N/A''
          \<and> map_of merged_data key \<noteq> Some new_value
      then merge_items column_headers row items
             (AList.update key new_value merged_data, True,
              (case index_of key column_headers of
                 Some i \<Rightarrow> cells_to_format @ [(row, i + 1)]
               | None \<Rightarrow> cells_to_format))
      else merge_items column_headers row items (merged_data, has_changed, cells_to_format))"

text \<open>\<open>[merged_data.get(h, "") for h in column_headers]\<close>\<close>

definition final_row_values :: "string list \<Rightarrow> pydict \<Rightarrow> json list" where
  "final_row_values column_headers merged_data =
     map (\<lambda>h. case map_of merged_data h of Some v \<Rightarrow> v | None \<Rightarrow> JStr []) column_headers"

section \<open>The reconciliation loop\<close>

text \<open>\<open>sub in s\<close> for two strings.\<close>

fun starts_with :: "string \<Rightarrow> string \<Rightarrow> bool" where
  "starts_with [] s = True"
| "starts_with (c # sub) [] = False"
| "starts_with (c # sub) (d # s) = (c = d \<and> starts_with sub s)"

fun py_in :: "string \<Rightarrow> string \<Rightarrow> bool" where
  "py_in sub [] = (sub = [])"
| "py_in sub (c # s) = (starts_with sub (c # s) \<or> py_in sub s)"

definition TRUSTED_DOMAINS :: "string list" where
  "TRUSTED_DOMAINS = [''iitm.ac.in'']"

definition OPPORTUNITY_KEYWORDS :: "string list" where
  "OPPORTUNITY_KEYWORDS = [''internship'', ''hiring'', ''research fellowship'',
     ''research internship'', ''fellowship'', ''recruiting'', ''job alert'', ''job opportunity'']"

text \<open>
  The dictionary that \<open>get_email_metadata\<close> returns, and the \<open>email_details\<close> that
  \<open>main\<close> builds from it. An attachment is its identifier and its file name.
\<close>

record metadata =
  md_id :: string
  md_threadId :: string
  md_sender_raw :: string
  md_sender_email :: string
  md_subject :: string
  md_body :: string
  md_attachment_ids :: "(string \<times> string) list"

record email_details =
  ed_id :: string
  ed_threadId :: string
  ed_sender_raw :: string
  ed_sender_email :: string
  ed_subject :: string
  ed_body :: string
  ed_attachment_text :: string

text \<open>
  What the mailbox, the model, the sheet and the clock answer while one message is
  processed. A call that can raise answers with the exception (\<open>Inl\<close>, or \<open>Some\<close> for a
  call without a result).
  \<^item> \<open>get_email_metadata\<close> is the result of the function of that name, which turns every
    exception into \<open>None\<close>.
  \<^item> \<open>fetch_and_parse_attachments\<close> is the result of the function of that name, which
    catches the exceptions of each attachment.
  \<^item> \<open>check_text\<close>, \<open>initial_text\<close> and \<open>update_text\<close> are \<open>generate_content(prompt).text\<close>
    for the prompt of \<open>is_opportunity_ai_check\<close> (built from the text given),
    of \<open>extract_initial_details_with_ai\<close> and of \<open>update_details_with_ai\<close> (built from
    the details of the message).
  \<^item> \<open>loads\<close> is \<open>json.loads\<close>.
  \<^item> \<open>worksheet_find\<close> is the row of the cell found, \<open>None\<close> when no cell matches.
  \<^item> \<open>strftime\<close> is the timestamp that \<open>format_row_from_json\<close> reads.
\<close>

record providers =
  get_email_metadata :: "string \<Rightarrow> metadata option"
  fetch_and_parse_attachments :: "string \<Rightarrow> (string \<times> string) list \<Rightarrow> string"
  check_text :: "string \<Rightarrow> exn + string"
  initial_text :: "email_details \<Rightarrow> exn + string"
  update_text :: "email_details \<Rightarrow> exn + string"
  loads :: "string \<Rightarrow> loads_result"
  worksheet_find :: "string \<Rightarrow> exn + nat option"
  worksheet_row_values :: "nat \<Rightarrow> exn + string list"
  worksheet_update :: "nat \<Rightarrow> json list \<Rightarrow> exn option"
  worksheet_append_row :: "json list \<Rightarrow> exn option"
  strftime :: string

text \<open>
  The calls that write: \<open>worksheet.append_row\<close>, \<open>worksheet.update\<close> with the row
  number, the \<open>batchUpdate\<close> that colours cells, and \<open>send_telegram_message\<close>. A call
  is recorded when it is made, whether it succeeds or raises.
\<close>

datatype call =
    AppendRow "json list"
  | UpdateRow nat "json list"
  | FormatCells "(nat \<times> nat) list"
  | SendMessage

text \<open>The variables of \<open>main\<close> that the loop changes, the file, and the calls made.\<close>

record state =
  processed_email_ids :: "string list"
  id_file :: "file_content option"
  existing_thread_ids :: "string set"
  new_opportunities_to_notify :: "pydict list"
  updated_opportunities_to_notify :: "(pydict \<times> pydict) list"
  calls :: "call list"

definition save :: "string \<Rightarrow> state \<Rightarrow> state" where
  "save email_id st =
     (case save_processed_email email_id (processed_email_ids st) of
        (ids, f) \<Rightarrow> st\<lparr>processed_email_ids := ids, id_file := f\<rparr>)"

definition is_opportunity_ai_check :: "providers \<Rightarrow> string \<Rightarrow> exn + bool" where
  "is_opportunity_ai_check p email_text =
     (case check_text p email_text of
        Inl e \<Rightarrow> Inl e
      | Inr text \<Rightarrow> Inr (py_in ''yes'' (py_lower text)))"

definition update_details_with_ai :: "providers \<Rightarrow> email_details \<Rightarrow> exn + pydict option" where
  "update_details_with_ai p new_email_details =
     (case update_text p new_email_details of
        Inl e \<Rightarrow> Inl e
      | Inr text \<Rightarrow> parse_ai_response (loads p) text)"

definition dict_get :: "pydict \<Rightarrow> string \<Rightarrow> json \<Rightarrow> json" where
  "dict_get d k fallback = (case map_of d k of Some v \<Rightarrow> v | None \<Rightarrow> fallback)"

definition format_row_from_json :: "string \<Rightarrow> string \<Rightarrow> email_details \<Rightarrow> pydict \<Rightarrow> json list" where
  "format_row_from_json now_text thread_id email_details extracted_data =
     [JStr thread_id, JStr now_text,
      dict_get extracted_data ''Application Deadline'' (JStr ''N/A''),
      JStr (ed_sender_raw email_details),
      dict_get extracted_data ''Institution/Company'' (JStr ''N/A''),
      dict_get extracted_data ''Eligibility'' (JStr ''All''),
      dict_get extracted_data ''Role Title'' (JStr ''N/A''),
      dict_get extracted_data ''Opportunity Type'' (JStr ''N/A''),
      dict_get extracted_data ''Role Field'' (JStr ''N/A''),
      dict_get extracted_data ''Location'' (JStr ''N/A''),
      dict_get extracted_data ''Work Mode'' (JStr ''N/A''),
      dict_get extracted_data ''Duration'' (JStr ''N/A''),
      dict_get extracted_data ''Time Commitment'' (JStr ''N/A''),
      dict_get extracted_data ''Stipend Details'' (JStr ''N/A''),
      dict_get extracted_data ''Required Skills'' (JStr ''N/A''),
      dict_get extracted_data ''Job Description (JD)'' (JStr ''N/A''),
      dict_get extracted_data ''Application Link'' (JStr ''N/A''),
      dict_get extracted_data relevance_key (JStr ''N/A''),
      JStr (ed_subject email_details)]"

text \<open>
  The update of an existing row: the \<open>try\<close> block of \<open>main\<close> with its
  \<open>except Exception\<close>. The result says whether control reaches the statement after the
  block: it does after an exception and at the end of the block, and it does not at the
  \<open>continue\<close> taken when no cell is found. After \<open>worksheet.update\<close> has returned, an
  exception of the formatting call changes nothing of the state.
\<close>

definition update_path :: "providers \<Rightarrow> email_details \<Rightarrow> state \<Rightarrow> bool \<times> state" where
  "update_path p email_details st =
     (case worksheet_find p (ed_threadId email_details) of
        Inl e \<Rightarrow> (True, st)
      | Inr None \<Rightarrow> (False, st)
      | Inr (Some cell_row) \<Rightarrow>
     (case worksheet_row_values p 3 of
        Inl e \<Rightarrow> (True, st)
      | Inr column_headers \<Rightarrow>
     (case worksheet_row_values p cell_row of
        Inl e \<Rightarrow> (True, st)
      | Inr row_values \<Rightarrow>
     (case update_details_with_ai p email_details of
        Inl e \<Rightarrow> (True, st)
      | Inr None \<Rightarrow> (True, st)
      | Inr (Some updated_data_json) \<Rightarrow>
          if updated_data_json = [] then (True, st)
          else
     (case merge_items column_headers cell_row updated_data_json
             (original_data_dict column_headers row_values, False, []) of
        (merged_data, has_changed, cells_to_format) \<Rightarrow>
          if \<not> has_changed then (True, st)
          else
            (let final = final_row_values column_headers merged_data;
                 st1 = st\<lparr>calls := calls st @ [UpdateRow cell_row final]\<rparr>
             in case worksheet_update p cell_row final of
                  Some e \<Rightarrow> (True, st1)
                | None \<Rightarrow>
                    (let st2 = st1\<lparr>updated_opportunities_to_notify :=
                            updated_opportunities_to_notify st1
                              @ [(original_data_dict column_headers row_values, merged_data)]\<rparr>
                     in if cells_to_format = [] then (True, st2)
                        else (True, st2\<lparr>calls := calls st2 @ [FormatCells cells_to_format]\<rparr>))))))))"

text \<open>
  The branch of a new opportunity. \<open>worksheet.append_row\<close> is not inside a \<open>try\<close>: its
  exception leaves \<open>main\<close> (\<open>Inl\<close>, with the state at that moment).
\<close>

definition new_path :: "providers \<Rightarrow> email_details \<Rightarrow> state \<Rightarrow> exn \<times> state + state" where
  "new_path p email_details st =
     (case extract_initial_details_with_ai (loads p) (initial_text p email_details) of
        None \<Rightarrow> Inr st
      | Some extracted_data \<Rightarrow>
          if extracted_data = [] then Inr st
          else
            (let row_to_append = format_row_from_json (strftime p) (ed_threadId email_details)
                                   email_details extracted_data;
                 st1 = st\<lparr>calls := calls st @ [AppendRow row_to_append]\<rparr>
             in case worksheet_append_row p row_to_append of
                  Some e \<Rightarrow> Inl (e, st1)
                | None \<Rightarrow>
                    Inr (st1\<lparr>existing_thread_ids :=
                                 insert (ed_threadId email_details) (existing_thread_ids st1),
                               new_opportunities_to_notify :=
                                 new_opportunities_to_notify st1 @ [extracted_data]\<rparr>)))"

text \<open>
  The body of the loop of \<open>main\<close> for one message. \<open>Inr\<close> is the state with which the
  loop goes on; \<open>Inl\<close> is an exception that no handler catches, which ends the run.
  The call of \<open>is_opportunity_ai_check\<close> is not inside a \<open>try\<close>.
\<close>

definition process_message :: "providers \<Rightarrow> string \<Rightarrow> state \<Rightarrow> exn \<times> state + state" where
  "process_message p msg_id st =
     (if msg_id \<in> set (processed_email_ids st) then Inr st
      else
     (case get_email_metadata p msg_id of
        None \<Rightarrow> Inr (save msg_id st)
      | Some email_metadata \<Rightarrow>
          if \<not> list_ex (\<lambda>domain. py_in domain (md_sender_email email_metadata)) TRUSTED_DOMAINS
          then Inr (save msg_id st)
          else
            (let email_text_for_search =
                   py_lower (md_subject email_metadata @ '' '' @ md_body email_metadata)
             in if \<not> list_ex (\<lambda>keyword. py_in keyword email_text_for_search) OPPORTUNITY_KEYWORDS
                then Inr (save msg_id st)
                else
     (case is_opportunity_ai_check p email_text_for_search of
        Inl e \<Rightarrow> Inl (e, st)
      | Inr is_opportunity \<Rightarrow>
          if \<not> is_opportunity then Inr (save msg_id st)
          else
            (let attachment_text =
                   (if md_attachment_ids email_metadata \<noteq> []
                    then fetch_and_parse_attachments p msg_id (md_attachment_ids email_metadata)
                    else []);
                 email_details = \<lparr>ed_id = md_id email_metadata,
                                  ed_threadId = md_threadId email_metadata,
                                  ed_sender_raw = md_sender_raw email_metadata,
                                  ed_sender_email = md_sender_email email_metadata,
                                  ed_subject = md_subject email_metadata,
                                  ed_body = md_body email_metadata,
                                  ed_attachment_text = attachment_text\<rparr>
             in if ed_threadId email_details \<in> existing_thread_ids st
                then (case update_path p email_details st of
                        (reaches_save, st1) \<Rightarrow> Inr (if reaches_save then save msg_id st1 else st1))
                else (case new_path p email_details st of
                        Inl abort \<Rightarrow> Inl abort
                      | Inr st1 \<Rightarrow> Inr (save msg_id st1)))))))"

text \<open>
  The loop over the listed messages. The providers may answer differently at each
  position of the list: \<open>steps i\<close> is what they answer while the message at position
  \<open>i\<close> is processed.
\<close>

fun run_loop :: "(nat \<Rightarrow> providers) \<Rightarrow> nat \<Rightarrow> string list \<Rightarrow> state \<Rightarrow> exn \<times> state + state" where
  "run_loop steps i [] st = Inr st"
| "run_loop steps i (msg_id # messages) st =
     (case process_message (steps i) msg_id st of
        Inl abort \<Rightarrow> Inl abort
      | Inr st1 \<Rightarrow> run_loop steps (Suc i) messages st1)"

text \<open>
  \<open>main\<close> after the set-up (authentication, the model, the worksheet and the resume have
  been obtained): the load of the processed identifiers with the default retention of 7
  days, the thread identifiers of the first column below row 3, the listing of the
  mailbox (\<open>get_emails\<close> returns the empty list when the listing fails), the loop and
  the notification. With no message listed, \<open>main\<close> returns before the loop.
\<close>

record run_env =
  age_of_run :: "int \<Rightarrow> rat"
  col_values :: "exn + string list"
  get_emails :: "string list"
  steps_of_run :: "nat \<Rightarrow> providers"

definition notify :: "state \<Rightarrow> state" where
  "notify st =
     (if new_opportunities_to_notify st \<noteq> [] \<or> updated_opportunities_to_notify st \<noteq> []
      then st\<lparr>calls := calls st @ [SendMessage]\<rparr> else st)"

definition main :: "run_env \<Rightarrow> file_content option \<Rightarrow> exn \<times> state + state" where
  "main env start_file =
     (case load_processed_emails (age_of_run env) 7 start_file of
        (loaded, f) \<Rightarrow>
          (let st0 = \<lparr>processed_email_ids = [], id_file = f, existing_thread_ids = {},
                      new_opportunities_to_notify = [], updated_opportunities_to_notify = [],
                      calls = []\<rparr>
           in case loaded of
                Inl e \<Rightarrow> Inl (e, st0)
              | Inr ids \<Rightarrow>
                  (case col_values env of
                     Inl e \<Rightarrow> Inl (e, st0\<lparr>processed_email_ids := ids\<rparr>)
                   | Inr column \<Rightarrow>
                       (let st1 = st0\<lparr>processed_email_ids := ids,
                                       existing_thread_ids := set (drop 3 column)\<rparr>
                        in if get_emails env = [] then Inr st1
                           else (case run_loop (steps_of_run env) 0 (get_emails env) st1 of
                                   Inl abort \<Rightarrow> Inl abort
                                 | Inr st2 \<Rightarrow> Inr (notify st2))))))"

text \<open>
  The state with which a run ends, and the thread identifiers of the rows passed to
  \<open>worksheet.append_row\<close>: the first cell of each row.
\<close>

definition outcome_state :: "exn \<times> state + state \<Rightarrow> state" where
  "outcome_state r = (case r of Inl (e, st) \<Rightarrow> st | Inr st \<Rightarrow> st)"

fun appended_threads :: "call list \<Rightarrow> json list" where
  "appended_threads [] = []"
| "appended_threads (AppendRow row # cs) = take 1 row @ appended_threads cs"
| "appended_threads (UpdateRow n row # cs) = appended_threads cs"
| "appended_threads (FormatCells cells # cs) = appended_threads cs"
| "appended_threads (SendMessage # cs) = appended_threads cs"

text \<open>
  Scenarios. \<open>quiet\<close> answers nothing of interest: no message can be fetched, the model
  says no, the sheet is empty and every call succeeds. The scenarios below change some
  of its answers. The message \<open>m1\<close> comes from a trusted sender, names an internship and
  belongs to the thread \<open>t1\<close>.
\<close>

definition quiet :: providers where
  "quiet = \<lparr>get_email_metadata = (\<lambda>msg_id. None),
            fetch_and_parse_attachments = (\<lambda>msg_id attachment_list. []),
            check_text = (\<lambda>email_text. Inr ''NO''),
            initial_text = (\<lambda>email_details. Inr []),
            update_text = (\<lambda>email_details. Inr []),
            loads = (\<lambda>s. JSONDecodeError),
            worksheet_find = (\<lambda>query. Inr None),
            worksheet_row_values = (\<lambda>row. Inr []),
            worksheet_update = (\<lambda>row values. None),
            worksheet_append_row = (\<lambda>values. None),
            strftime = ''2025-06-01 09:00:00''\<rparr>"

definition internship_mail :: metadata where
  "internship_mail = \<lparr>md_id = ''m1'', md_threadId = ''t1'',
      md_sender_raw = ''Placement Office <placement@iitm.ac.in>'',
      md_sender_email = ''placement@iitm.ac.in'',
      md_subject = ''Summer internship'', md_body = ''Apply by Friday.'',
      md_attachment_ids = []\<rparr>"

text \<open>The mailbox holds \<open>m1\<close> and the model classifies it as an opportunity.\<close>

definition accepted :: providers where
  "accepted = quiet\<lparr>get_email_metadata :=
                        (\<lambda>msg_id. if msg_id = ''m1'' then Some internship_mail else None),
                      check_text := (\<lambda>email_text. Inr ''YES'')\<rparr>"

text \<open>
  A run in which the first column of the sheet names the thread \<open>t1\<close> and
  \<open>worksheet.find\<close> finds no cell for it (the row was removed after the column had been
  read).
\<close>

definition row_removed :: run_env where
  "row_removed = \<lparr>age_of_run = clock_age 1700000000,
      col_values = Inr [''Opportunities'', [], ''Thread ID'', ''t1''],
      get_emails = [''m1''],
      steps_of_run = (\<lambda>i. accepted)\<rparr>"

text \<open>The model raises on the classification call; two messages are listed.\<close>

definition classifier_outage :: run_env where
  "classifier_outage = \<lparr>age_of_run = clock_age 1700000000,
      col_values = Inr [''Opportunities'', [], ''Thread ID''],
      get_emails = [''m1'', ''m2''],
      steps_of_run = (\<lambda>i. accepted\<lparr>check_text := (\<lambda>email_text. Inl ProviderError)\<rparr>)\<rparr>"

text \<open>
  The model answers the extraction prompt with \<open>reply_8_of_10\<close> and
  \<open>worksheet.append_row\<close> raises; two messages are listed.
\<close>

definition append_outage :: run_env where
  "append_outage = \<lparr>age_of_run = clock_age 1700000000,
      col_values = Inr [''Opportunities'', [], ''Thread ID''],
      get_emails = [''m1'', ''m2''],
      steps_of_run = (\<lambda>i. accepted\<lparr>initial_text := (\<lambda>email_details. Inr reply_8_of_10),
                                      loads := score_loads,
                                      worksheet_append_row := (\<lambda>values. Some ProviderError)\<rparr>)\<rparr>"

text \<open>
  An office. The header row of its sheet names the columns of \<open>format_row_from_json\<close>,
  and row 4 holds the row of the thread \<open>t1\<close> once it has been appended. The message
  \<open>m2\<close> is a reply in the thread of \<open>m1\<close>; the message \<open>1a2b\<close> is \<open>m1\<close> under an
  identifier that decodes to the timestamp 0. The model answers the extraction prompt
  with \<open>reply_8_of_10\<close> and the update prompt with the deadline.
\<close>

definition sheet_headers :: "string list" where
  "sheet_headers = [''Thread ID'', ''Timestamp'', ''Application Deadline'', ''Sender'',
     ''Institution/Company'', ''Eligibility'', ''Role Title'', ''Opportunity Type'',
     ''Role Field'', ''Location'', ''Work Mode'', ''Duration'', ''Time Commitment'',
     ''Stipend Details'', ''Required Skills'', ''Job Description (JD)'', ''Application Link'',
     ''Relevance Score (1-10)'', ''Subject'']"

definition sheet_row :: "string list" where
  "sheet_row = [''t1'', ''2025-06-01 09:00:00'', ''N/A'',
     ''Placement Office <placement@iitm.ac.in>'', ''N/A'', ''All'', ''Intern'', ''N/A'',
     ''N/A'', ''N/A'', ''N/A'', ''N/A'', ''N/A'', ''N/A'', ''N/A'', ''N/A'', ''N/A'', ''8'',
     ''Summer internship'']"

definition followup_mail :: metadata where
  "followup_mail = \<lparr>md_id = ''m2'', md_threadId = ''t1'',
      md_sender_raw = ''Placement Office <placement@iitm.ac.in>'',
      md_sender_email = ''placement@iitm.ac.in'',
      md_subject = ''Re: Summer internship'', md_body = ''Reminder: apply by Friday.'',
      md_attachment_ids = []\<rparr>"

definition reply_deadline :: string where
  \<open>reply_deadline = ''{"Application Deadline": "Friday"}''\<close>

definition office_loads :: "string \<Rightarrow> loads_result" where
  "office_loads s =
     (if s = reply_deadline then Loaded [(''Application Deadline'', JStr ''Friday'')]
      else score_loads s)"

definition office :: providers where
  "office = accepted\<lparr>
      get_email_metadata :=
        (\<lambda>msg_id. if msg_id = ''m1'' then Some internship_mail
                   else if msg_id = ''m2'' then Some followup_mail
                   else if msg_id = ''1a2b'' then Some (internship_mail\<lparr>md_id := ''1a2b''\<rparr>)
                   else None),
      initial_text := (\<lambda>email_details. Inr reply_8_of_10),
      update_text := (\<lambda>email_details. Inr reply_deadline),
      loads := office_loads,
      worksheet_find := (\<lambda>query. Inr (Some 4)),
      worksheet_row_values :=
        (\<lambda>row. Inr (if row = 3 then sheet_headers else sheet_row))\<rparr>"

text \<open>A run that lists \<open>m1\<close> and \<open>m2\<close> on a sheet without records.\<close>

definition two_in_thread :: run_env where
  "two_in_thread = \<lparr>age_of_run = clock_age 1700000000,
      col_values = Inr [''Opportunities'', [], ''Thread ID''],
      get_emails = [''m1'', ''m2''],
      steps_of_run = (\<lambda>i. office)\<rparr>"




section \<open>Facts about the string operations\<close>

lemma find_from_absent: "c \<notin> set s \<Longrightarrow> find_from c s i = - 1"
  by (induction s arbitrary: i) auto

lemma find_from_present:
  "c \<in> set s \<Longrightarrow> \<exists>k. first_index c s k \<and> find_from c s i = int (i + k)"
proof (induction s arbitrary: i)
  case Nil
  then show ?case by simp
next
  case (Cons x xs)
  show ?case
  proof (cases "x = c")
    case True
    then have "first_index c (x # xs) 0" by (simp add: first_index_def)
    with True show ?thesis by (intro exI [of _ 0]) simp
  next
    case False
    with Cons.prems have "c \<in> set xs" by simp
    from Cons.IH [OF this, of "Suc i"] obtain k
      where k: "first_index c xs k" "find_from c xs (Suc i) = int (Suc i + k)" by blast
    have "first_index c (x # xs) (Suc k)"
      using k(1) False by (auto simp: first_index_def nth_Cons split: nat.splits)
    with k(2) False show ?thesis by (intro exI [of _ "Suc k"]) simp
  qed
qed

lemma rfind_from_absent: "c \<notin> set s \<Longrightarrow> rfind_from c s i found = found"
  by (induction s arbitrary: i found) auto

lemma rfind_from_present:
  "c \<in> set s \<Longrightarrow> \<exists>k. last_index c s k \<and> rfind_from c s i found = int (i + k)"
proof (induction s arbitrary: i found)
  case Nil
  then show ?case by simp
next
  case (Cons x xs)
  show ?case
  proof (cases "c \<in> set xs")
    case True
    from Cons.IH [OF this, of "Suc i" "if x = c then int i else found"] obtain k
      where k: "last_index c xs k"
        "rfind_from c xs (Suc i) (if x = c then int i else found) = int (Suc i + k)" by blast
    have "last_index c (x # xs) (Suc k)"
      using k(1) by (auto simp: last_index_def nth_Cons split: nat.splits)
    with k(2) show ?thesis by (intro exI [of _ "Suc k"]) simp
  next
    case False
    with Cons.prems have xc: "x = c" by simp
    have "last_index c (x # xs) 0"
      using False xc by (auto simp: last_index_def nth_Cons in_set_conv_nth split: nat.splits)
    moreover have "rfind_from c (x # xs) i found = int i"
      using False xc by (simp add: rfind_from_absent)
    ultimately show ?thesis by (intro exI [of _ 0]) simp
  qed
qed

lemma rfind_from_last: "rfind_from c (s @ [c]) i found = int (i + length s)"
  by (induction s arbitrary: i found) auto

text \<open>
  The slicing of \<open>parse_ai_response\<close>: without an opening or without a closing brace
  the result is \<open>None\<close>; otherwise \<open>json.loads\<close> is applied to the text from the first
  opening brace to the last closing brace inclusive, its object returned, its
  \<open>JSONDecodeError\<close> turned into \<open>None\<close>, and any other exception let through.
\<close>

lemma parse_ai_response_slice:
  "(CHR ''{'' \<notin> set t \<or> CHR ''}'' \<notin> set t \<longrightarrow> parse_ai_response json_loads t = Inr None) \<and>
   (CHR ''{'' \<in> set t \<and> CHR ''}'' \<in> set t \<longrightarrow>
      (\<exists>i j. first_index (CHR ''{'') t i \<and> last_index (CHR ''}'') t j \<and>
         parse_ai_response json_loads t =
           (case json_loads (take (Suc j - i) (drop i t)) of
              Loaded d \<Rightarrow> Inr (Some d)
            | JSONDecodeError \<Rightarrow> Inr None
            | Raised e \<Rightarrow> Inl e)))"
proof (intro conjI impI)
  assume "CHR ''{'' \<notin> set t \<or> CHR ''}'' \<notin> set t"
  then show "parse_ai_response json_loads t = Inr None"
    by (auto simp: parse_ai_response_def py_find_def py_rfind_def Let_def
        find_from_absent rfind_from_absent)
next
  assume both: "CHR ''{'' \<in> set t \<and> CHR ''}'' \<in> set t"
  from find_from_present [of "CHR ''{''" t 0] both obtain i
    where i: "first_index (CHR ''{'') t i" "find_from (CHR ''{'') t 0 = int i" by auto
  from rfind_from_present [of "CHR ''}''" t 0 "- 1"] both obtain j
    where j: "last_index (CHR ''}'') t j" "rfind_from (CHR ''}'') t 0 (- 1) = int j" by auto
  have "parse_ai_response json_loads t =
      (case json_loads (take (Suc j - i) (drop i t)) of
         Loaded d \<Rightarrow> Inr (Some d) | JSONDecodeError \<Rightarrow> Inr None | Raised e \<Rightarrow> Inl e)"
    using i(2) j(2)
    by (simp add: parse_ai_response_def py_find_def py_rfind_def Let_def py_slice_def
        nat_add_distrib Suc_diff_le)
  with i(1) j(1) show "\<exists>i j. first_index (CHR ''{'') t i \<and> last_index (CHR ''}'') t j \<and>
      parse_ai_response json_loads t =
        (case json_loads (take (Suc j - i) (drop i t)) of
           Loaded d \<Rightarrow> Inr (Some d) | JSONDecodeError \<Rightarrow> Inr None | Raised e \<Rightarrow> Inl e)"
    by blast
qed

text \<open>A reply that is one braced text is handed to \<open>json.loads\<close> whole.\<close>

lemma parse_ai_response_braced:
  "parse_ai_response json_loads (CHR ''{'' # s @ ''}'') =
     (case json_loads (CHR ''{'' # s @ ''}'') of
        Loaded d \<Rightarrow> Inr (Some d)
      | JSONDecodeError \<Rightarrow> Inr None
      | Raised e \<Rightarrow> Inl e)"
proof -
  have "rfind_from (CHR ''}'') ((CHR ''{'' # s) @ [CHR ''}'']) 0 (- 1) = int (0 + length (CHR ''{'' # s))"
    by (rule rfind_from_last)
  then have r: "py_rfind (CHR ''}'') (CHR ''{'' # s @ ''}'') = int (Suc (length s))"
    by (simp add: py_rfind_def)
  have f: "py_find (CHR ''{'') (CHR ''{'' # s @ ''}'') = 0"
    by (simp add: py_find_def)
  have "py_slice (CHR ''{'' # s @ ''}'') 0 (int (Suc (length s)) + 1) = CHR ''{'' # s @ ''}''"
    by (simp add: py_slice_def nat_add_distrib)
  then show ?thesis
    unfolding parse_ai_response_def Let_def f r by simp
qed

text \<open>
  C7. The function finds the first opening and the last closing brace and hands the
  text between them to \<open>json.loads\<close> (\<open>parse_ai_response_slice\<close>), and it returns
  \<open>None\<close> without braces or on a \<open>JSONDecodeError\<close>. It does raise, though: a reply
  with 1200 nested lists makes \<open>json.loads\<close> raise \<open>RecursionError\<close>, and one with an
  integer of 5000 digits a plain \<open>ValueError\<close>; the handler catches neither, and the
  exception leaves \<open>parse_ai_response\<close>.
\<close>

theorem parse_ai_response_raises:
  "parse_ai_response nesting_loads nested_reply = Inl RecursionError \<and>
   parse_ai_response nesting_loads long_integer_reply = Inl ValueError"
proof -
  have "length long_integer_reply \<noteq> length nested_reply"
    by (simp add: long_integer_reply_def nested_reply_def)
  then have differ: "long_integer_reply \<noteq> nested_reply"
    by auto
  have "parse_ai_response nesting_loads nested_reply = Inl RecursionError"
    unfolding nested_reply_def parse_ai_response_braced
    by (simp add: nesting_loads_def nested_reply_def)
  moreover have "parse_ai_response nesting_loads long_integer_reply = Inl ValueError"
    unfolding long_integer_reply_def parse_ai_response_braced
    using differ by (simp add: nesting_loads_def long_integer_reply_def)
  ultimately show ?thesis by simp
qed

section \<open>The relevance score\<close>

lemmas float_defs = round_score_def py_float_def py_strip_def c_strip_def is_space_def c_space_def
  split_sign_def py_lower_def lower_char_def py_round_def float_number_def float_exponent_def
  is_digit_def digit_val_def decimal_val_def float_of_fraction_def float_overflow_bound_def
  nearest_binary64_def binary_exponent_def round_half_even_div_def round_half_even_def
  bit_length.simps Let_def

lemmas reply_defs = reply_8_of_10_def reply_11_def reply_abc_def reply_inf_def

lemma round_score_examples:
  "round_score (JStr ''8/10'') = Inr 8"
  "round_score (JStr ''11'') = Inr 11"
  "round_score (JStr ''abc'') = Inl ValueError"
  "round_score (JStr ''inf'') = Inl OverflowError"
  by (simp_all add: float_defs)

lemma parse_score_replies:
  "parse_ai_response score_loads reply_8_of_10
     = Inr (Some [(''Role Title'', JStr ''Intern''), (relevance_key, JStr ''8/10'')])"
  "parse_ai_response score_loads reply_11
     = Inr (Some [(''Role Title'', JStr ''Intern''), (relevance_key, JStr ''11'')])"
  "parse_ai_response score_loads reply_abc
     = Inr (Some [(''Role Title'', JStr ''Intern''), (relevance_key, JStr ''abc'')])"
  "parse_ai_response score_loads reply_inf
     = Inr (Some [(''Role Title'', JStr ''Intern''), (relevance_key, JStr ''inf'')])"
  by (simp_all add: parse_ai_response_def py_find_def py_rfind_def py_slice_def score_loads_def
      reply_defs)

lemma str_small: "py_str_int 8 = ''8''" "py_str_int 10 = ''10''" "py_str_int 3 = ''3''"
  by (simp_all add: py_str_int_def str_nat.simps)

lemma relevance_examples:
  "extract_initial_details_with_ai score_loads (Inr reply_8_of_10)
     = Some [(''Role Title'', JStr ''Intern''), (relevance_key, JStr ''8'')]"
  "extract_initial_details_with_ai score_loads (Inr reply_11)
     = Some [(''Role Title'', JStr ''Intern''), (relevance_key, JStr ''10'')]"
  "extract_initial_details_with_ai score_loads (Inr reply_abc)
     = Some [(''Role Title'', JStr ''Intern''), (relevance_key, JStr ''3'')]"
  by (simp_all add: extract_initial_details_with_ai_def parse_score_replies
      validate_relevance_def round_score_examples str_small relevance_key_def)

lemma validate_relevance_range:
  assumes "validate_relevance d = Inr d'" and "map_of d relevance_key = Some score"
  shows "\<exists>n. 1 \<le> n \<and> n \<le> 10 \<and> map_of d' relevance_key = Some (JStr (py_str_int n))"
proof (cases "round_score score")
  case (Inr r)
  with assms have "d' = AList.update relevance_key (JStr (py_str_int (max 1 (min 10 r)))) d"
    by (simp add: validate_relevance_def)
  then have "map_of d' relevance_key = Some (JStr (py_str_int (max 1 (min 10 r))))"
    by (simp add: update_conv')
  moreover have "1 \<le> max 1 (min 10 r)" "max 1 (min 10 r) \<le> 10" by auto
  ultimately show ?thesis by blast
next
  case (Inl e)
  with assms have "d' = AList.update relevance_key (JStr ''3'') d"
    by (auto simp: validate_relevance_def split: if_splits)
  then have "map_of d' relevance_key = Some (JStr ''3'')"
    by (simp add: update_conv')
  then show ?thesis using str_small(3) by (intro exI [of _ 3]) simp
qed

text \<open>
  C9. The raw values \<open>8/10\<close>, \<open>11\<close> and \<open>abc\<close> are stored as \<open>8\<close>, \<open>10\<close> and \<open>3\<close>
  (\<open>relevance_examples\<close>), and a validation that returns stores an integer of 1 to 10
  (\<open>validate_relevance_range\<close>). For the raw value \<open>inf\<close> the key is present and
  the value is a number, yet \<open>round\<close> raises \<open>OverflowError\<close>, which the inner
  handler does not catch: the extraction returns \<open>None\<close> and nothing is stored.
\<close>

theorem relevance_infinite_score_drops_extraction:
  "round_score (JStr ''inf'') = Inl OverflowError \<and>
   extract_initial_details_with_ai score_loads (Inr reply_inf) = None"
  by (simp add: extract_initial_details_with_ai_def parse_score_replies
      validate_relevance_def round_score_examples relevance_key_def)


section \<open>The retention store: pruning and loading\<close>

lemma recent_ids_Inr:
  assumes "recent_ids age_of r ids = Inr S"
  shows "(\<forall>m\<in>set ids. \<exists>a. get_email_age_days age_of m = Inr a) \<and>
         set S = {m \<in> set ids. \<exists>a. get_email_age_days age_of m = Inr a \<and> a < r} \<and>
         distinct S"
  using assms
proof (induction ids arbitrary: S)
  case Nil
  then show ?case by simp
next
  case (Cons m ids)
  define P where "P x \<longleftrightarrow> (\<exists>a. get_email_age_days age_of x = Inr a \<and> a < r)" for x
  from Cons.prems obtain a where a: "get_email_age_days age_of m = Inr a"
    by (cases "get_email_age_days age_of m") simp_all
  from Cons.prems a obtain rest where rest: "recent_ids age_of r ids = Inr rest"
    by (cases "recent_ids age_of r ids") simp_all
  from Cons.prems a rest have S: "S = (if a < r then List.insert m rest else rest)"
    by simp
  from Cons.IH [OF rest] have ih1: "\<forall>m\<in>set ids. \<exists>a. get_email_age_days age_of m = Inr a"
    and ih2: "set rest = {m \<in> set ids. P m}" and ih3: "distinct rest"
    unfolding P_def by blast+
  have Pm: "P m \<longleftrightarrow> a < r" unfolding P_def using a by simp
  have split: "{x \<in> set (m # ids). P x}
      = (if P m then insert m {x \<in> set ids. P x} else {x \<in> set ids. P x})"
    by auto
  have "set S = {x \<in> set (m # ids). P x}"
    unfolding split Pm S using ih2 by simp
  then have c2: "set S = {x \<in> set (m # ids). \<exists>a. get_email_age_days age_of x = Inr a \<and> a < r}"
    unfolding P_def .
  have c1: "\<forall>x\<in>set (m # ids). \<exists>a. get_email_age_days age_of x = Inr a"
    using a ih1 by simp
  have c3: "distinct S" unfolding S using ih3 by simp
  from c1 c2 c3 show ?case by blast
qed

lemma recent_ids_total:
  "(\<forall>m\<in>set ids. \<exists>a. get_email_age_days age_of m = Inr a) \<Longrightarrow> \<exists>S. recent_ids age_of r ids = Inr S"
proof (induction ids)
  case Nil
  then show ?case by simp
next
  case (Cons m ids)
  then obtain a where a: "get_email_age_days age_of m = Inr a" by auto
  from Cons obtain S where S: "recent_ids age_of r ids = Inr S" by auto
  from a S show ?case by simp
qed

lemma age_undecodable: "py_int16 m = None \<Longrightarrow> get_email_age_days age_of m = Inr 0"
  by (simp add: get_email_age_days_def)

lemma age_fits:
  "(\<forall>n. py_int16 m = Some n \<longrightarrow> int_fits_float (n div 2 ^ 16)) \<Longrightarrow>
   \<exists>a. get_email_age_days age_of m = Inr a"
proof (cases "py_int16 m")
  case None
  then show ?thesis by (simp add: age_undecodable)
next
  case (Some n)
  assume "\<forall>n. py_int16 m = Some n \<longrightarrow> int_fits_float (n div 2 ^ 16)"
  with Some have "int_fits_float (n div 2 ^ 16)" by simp
  with Some have "get_email_age_days age_of m
      = Inr (age_of (n div 2 ^ 16))"
    by (simp add: get_email_age_days_def Let_def)
  then show ?thesis by blast
qed

text \<open>
  C5. For every persisted identifier list and every retention value, when the load
  returns a set: every identifier in it comes from the file and has a derived age below
  the retention value, and every identifier of the file that is not in it has a derived
  age of at least the retention value. An identifier that does not decode has derived
  age 0 and so stays exactly when the retention value is positive: it is never removed
  for being undecodable. The load returns a set whenever each decoded timestamp fits a
  float; otherwise the conversion raises \<open>OverflowError\<close> and there is no returned set.
\<close>

theorem pruning_law:
  "(load_processed_emails age_of r (Some (IdList ids)) = (Inr S, f) \<longrightarrow>
      (\<forall>m\<in>set S. m \<in> set ids \<and> (\<exists>a. get_email_age_days age_of m = Inr a \<and> a < r)) \<and>
      (\<forall>m\<in>set ids - set S. \<exists>a. get_email_age_days age_of m = Inr a \<and> r \<le> a) \<and>
      (\<forall>m\<in>set ids. py_int16 m = None \<longrightarrow>
          get_email_age_days age_of m = Inr 0 \<and> (m \<in> set S \<longleftrightarrow> 0 < r))) \<and>
   ((\<forall>m\<in>set ids. \<forall>n. py_int16 m = Some n \<longrightarrow> int_fits_float (n div 2 ^ 16)) \<longrightarrow>
      (\<exists>S' f'. load_processed_emails age_of r (Some (IdList ids)) = (Inr S', f')))"
proof (intro conjI impI)
  assume load: "load_processed_emails age_of r (Some (IdList ids)) = (Inr S, f)"
  then have rec: "recent_ids age_of r ids = Inr S"
    by (auto simp: load_processed_emails_def split: sum.splits)
  note facts = recent_ids_Inr [OF rec]
  show "\<forall>m\<in>set S. m \<in> set ids \<and> (\<exists>a. get_email_age_days age_of m = Inr a \<and> a < r)"
    using facts by auto
  show "\<forall>m\<in>set ids - set S. \<exists>a. get_email_age_days age_of m = Inr a \<and> r \<le> a"
  proof
    fix m assume m: "m \<in> set ids - set S"
    with facts obtain a where a: "get_email_age_days age_of m = Inr a" by auto
    with m facts have "\<not> a < r" by auto
    with a show "\<exists>a. get_email_age_days age_of m = Inr a \<and> r \<le> a" by auto
  qed
  show "\<forall>m\<in>set ids. py_int16 m = None \<longrightarrow>
          get_email_age_days age_of m = Inr 0 \<and> (m \<in> set S \<longleftrightarrow> 0 < r)"
    using facts by (auto simp: age_undecodable)
next
  assume "\<forall>m\<in>set ids. \<forall>n. py_int16 m = Some n \<longrightarrow> int_fits_float (n div 2 ^ 16)"
  then have "\<forall>m\<in>set ids. \<exists>a. get_email_age_days age_of m = Inr a"
    using age_fits by blast
  from recent_ids_total [OF this] obtain S' where "recent_ids age_of r ids = Inr S'" by blast
  then show "\<exists>S' f'. load_processed_emails age_of r (Some (IdList ids)) = (Inr S', f')"
    by (simp add: load_processed_emails_def)
qed

text \<open>
  At a clock reading of 1700000000 seconds and a retention of 7 days, the identifier
  \<open>1a2b\<close> decodes to timestamp 0 and is pruned, \<open>18c3f1a2b4d5e6f7\<close> decodes to a
  recent timestamp and stays, and \<open>zz\<close> does not decode and stays; the file is
  rewritten.
\<close>

lemmas int16_defs = py_int16_def c_strip_def c_space_def split_sign_def strip_hex_prefix_def
  is_hex_def hex_val_def is_digit_def

lemma load_example_ages:
  "py_int16 ''zz'' = None"
  "py_int16 ''1a2b'' = Some 6699"
  "py_int16 ''18c3f1a2b4d5e6f7'' = Some 1784535558489761527"
  "int_fits_float (6699 div 2 ^ 16)"
  "int_fits_float (1784535558489761527 div 2 ^ 16)"
  by (simp_all add: int16_defs int_fits_float_def float_overflow_bound_def)

lemma load_example_age_values:
  "get_email_age_days (clock_age 1700000000) ''zz'' = Inr 0"
  "get_email_age_days (clock_age 1700000000) ''1a2b'' = Inr (2125000 / 108)"
  "get_email_age_days (clock_age 1700000000) ''18c3f1a2b4d5e6f7'' = Inr (- 1021194066461 / 3456000)"
  by (simp_all add: get_email_age_days_def load_example_ages(1-3) clock_age_def
      int_fits_float_def float_overflow_bound_def)

lemma load_example:
  "load_processed_emails (clock_age 1700000000) 7 (Some (IdList [''1a2b'', ''18c3f1a2b4d5e6f7'', ''zz'']))
     = (Inr [''18c3f1a2b4d5e6f7'', ''zz''], Some (IdList [''18c3f1a2b4d5e6f7'', ''zz'']))"
  by (simp add: load_processed_emails_def load_example_age_values)

theorem pruning_law_witness:
  "(\<exists>a. get_email_age_days (clock_age 1700000000) ''18c3f1a2b4d5e6f7'' = Inr a \<and> a < 7) \<and>
   (\<exists>a. get_email_age_days (clock_age 1700000000) ''zz'' = Inr a \<and> a < 7) \<and>
   (\<exists>a. get_email_age_days (clock_age 1700000000) ''1a2b'' = Inr a \<and> 7 \<le> a) \<and>
   get_email_age_days (clock_age 1700000000) ''zz'' = Inr 0 \<and>
   (\<exists>S' f'. load_processed_emails (clock_age 1700000000) 7
      (Some (IdList [''1a2b'', ''18c3f1a2b4d5e6f7'', ''zz''])) = (Inr S', f'))"
proof -
  note law = pruning_law [of "clock_age 1700000000" 7 "[''1a2b'', ''18c3f1a2b4d5e6f7'', ''zz'']"
      "[''18c3f1a2b4d5e6f7'', ''zz'']" "Some (IdList [''18c3f1a2b4d5e6f7'', ''zz''])"]
  from law [THEN conjunct1, THEN mp, OF load_example]
  have kept: "\<forall>m\<in>set [''18c3f1a2b4d5e6f7'', ''zz''].
        m \<in> set [''1a2b'', ''18c3f1a2b4d5e6f7'', ''zz''] \<and>
        (\<exists>a. get_email_age_days (clock_age 1700000000) m = Inr a \<and> a < 7)"
    and pruned: "\<forall>m\<in>set [''1a2b'', ''18c3f1a2b4d5e6f7'', ''zz'']
          - set [''18c3f1a2b4d5e6f7'', ''zz''].
        \<exists>a. get_email_age_days (clock_age 1700000000) m = Inr a \<and> 7 \<le> a"
    and undec: "\<forall>m\<in>set [''1a2b'', ''18c3f1a2b4d5e6f7'', ''zz''].
        py_int16 m = None \<longrightarrow>
        get_email_age_days (clock_age 1700000000) m = Inr 0 \<and>
        (m \<in> set [''18c3f1a2b4d5e6f7'', ''zz''] \<longleftrightarrow> (0::rat) < 7)"
    by blast+
  have k1: "\<exists>a. get_email_age_days (clock_age 1700000000) ''18c3f1a2b4d5e6f7'' = Inr a \<and> a < 7"
    using kept by simp
  have k2: "\<exists>a. get_email_age_days (clock_age 1700000000) ''zz'' = Inr a \<and> a < 7"
    using kept by simp
  have "''1a2b'' \<in> set [''1a2b'', ''18c3f1a2b4d5e6f7'', ''zz'']
      - set [''18c3f1a2b4d5e6f7'', ''zz'']" by simp
  with pruned have p1: "\<exists>a. get_email_age_days (clock_age 1700000000) ''1a2b'' = Inr a \<and> 7 \<le> a"
    by blast
  have "''zz'' \<in> set [''1a2b'', ''18c3f1a2b4d5e6f7'', ''zz'']" by simp
  with undec load_example_ages(1) have u1: "get_email_age_days (clock_age 1700000000) ''zz'' = Inr 0"
    by blast
  have "\<forall>m\<in>set [''1a2b'', ''18c3f1a2b4d5e6f7'', ''zz''].
      \<forall>n. py_int16 m = Some n \<longrightarrow> int_fits_float (n div 2 ^ 16)"
    using load_example_ages by simp
  with law [THEN conjunct2]
  have t: "\<exists>S' f'. load_processed_emails (clock_age 1700000000) 7
      (Some (IdList [''1a2b'', ''18c3f1a2b4d5e6f7'', ''zz''])) = (Inr S', f')"
    by blast
  from k1 k2 p1 u1 t show ?thesis by blast
qed

lemma load_fails_soft:
  "file = None \<or> file = Some Unparsable \<Longrightarrow>
   load_processed_emails age_of r file = (Inr [], file)"
  by (auto simp: load_processed_emails_def)

text \<open>
  C8. An absent file and a text that \<open>json.load\<close> rejects with \<open>JSONDecodeError\<close> give
  the empty set (lemma \<open>load_fails_soft\<close>). A file whose bytes are not a text in the
  encoding of \<open>open\<close> is a content that cannot be parsed either, and on it the load
  raises \<open>UnicodeDecodeError\<close>: the handler names \<open>JSONDecodeError\<close> only. A file
  holding \<open>null\<close> parses, and the load raises \<open>TypeError\<close>. In both cases the file
  stays as it is, so every later run raises again.
\<close>

theorem load_raises_on_undecodable_file:
  "load_processed_emails age_of r (Some (ReadRaises UnicodeDecodeError))
     = (Inl UnicodeDecodeError, Some (ReadRaises UnicodeDecodeError)) \<and>
   load_processed_emails age_of r (Some NotIterable) = (Inl TypeError, Some NotIterable)"
  by (simp add: load_processed_emails_def)

section \<open>The merge of an update\<close>



lemma merge_items_other:
  "key \<notin> set (map fst items) \<Longrightarrow>
   map_of (fst (merge_items hs row items (m, c, cells))) key = map_of m key"
proof (induction items arbitrary: m c cells)
  case Nil
  then show ?case by simp
next
  case (Cons kv items)
  obtain k v where kv: "kv = (k, v)" by (cases kv)
  from Cons.prems kv have ne: "k \<noteq> key" and rest: "key \<notin> set (map fst items)" by auto
  show ?case
    unfolding kv using Cons.IH [OF rest] ne by (simp add: update_conv')
qed

lemma merge_items_keys:
  "set (map fst (fst (merge_items hs row items (m, c, cells)))) = set (map fst m)"
proof (induction items arbitrary: m c cells)
  case Nil
  then show ?case by simp
next
  case (Cons kv items)
  obtain k v where kv: "kv = (k, v)" by (cases kv)
  have "k \<in> set (map fst m) \<Longrightarrow> set (map fst (AList.update k v m)) = set (map fst m)"
    using dom_update [of k v m] by auto
  then show ?case unfolding kv using Cons.IH by simp
qed

lemma merge_items_key:
  assumes "distinct (map fst items)" and "(key, new_value) \<in> set items"
  shows "map_of (fst (merge_items hs row items (m, c, cells))) key =
     (if key \<in> set (map fst m) \<and> new_value \<noteq> JStr ''N/A'' \<and> map_of m key \<noteq> Some new_value
      then Some new_value else map_of m key)"
  using assms
proof (induction items arbitrary: m c cells)
  case Nil
  then show ?case by simp
next
  case (Cons kv items)
  obtain k v where kv: "kv = (k, v)" by (cases kv)
  from Cons.prems kv have dist: "distinct (map fst items)" and k: "k \<notin> set (map fst items)"
    by auto
  show ?case
  proof (cases "(key, new_value) = (k, v)")
    case True
    then have eq: "k = key" "v = new_value" by auto
    from k eq have "key \<notin> set (map fst items)" by simp
    note other = merge_items_other [OF this]
    show ?thesis unfolding kv eq by (simp add: other update_conv')
  next
    case False
    with Cons.prems kv have mem: "(key, new_value) \<in> set items" by auto
    then have "key \<in> set (map fst items)" by force
    with k have ne: "k \<noteq> key" by auto
    have keys: "k \<in> set (map fst m) \<Longrightarrow> set (map fst (AList.update k v m)) = set (map fst m)"
      using dom_update [of k v m] by auto
    show ?thesis
      unfolding kv using Cons.IH [OF dist mem] ne keys by (simp add: update_conv')
  qed
qed

lemma merge_items_unknown_key:
  "key \<notin> set (map fst m) \<Longrightarrow>
   merge_items hs row ((key, new_value) # items) (m, c, cells) = merge_items hs row items (m, c, cells)"
  by simp

lemma foldl_update_other:
  "key \<notin> set hs \<Longrightarrow>
   map_of (foldl (\<lambda>d (i, header). AList.update header (f i) d) d0 (enumerate n hs)) key
     = map_of d0 key"
  by (induction hs arbitrary: d0 n) (auto simp: update_conv')

lemma foldl_update_cell:
  "distinct hs \<Longrightarrow> i < length hs \<Longrightarrow>
   map_of (foldl (\<lambda>d (i, header). AList.update header (f i) d) d0 (enumerate n hs)) (hs ! i)
     = Some (f (n + i))"
proof (induction hs arbitrary: d0 n i)
  case Nil
  then show ?case by simp
next
  case (Cons h hs)
  show ?case
  proof (cases i)
    case 0
    from Cons.prems have "h \<notin> set hs" by simp
    from foldl_update_other [OF this, of f "AList.update h (f n) d0" "Suc n"] show ?thesis
      unfolding 0 by (simp add: update_conv')
  next
    case (Suc j)
    with Cons.prems have "distinct hs" "j < length hs" by auto
    from Cons.IH [OF this] show ?thesis unfolding Suc by simp
  qed
qed

text \<open>With distinct headers, the value that the dictionary holds for a header is the cell
  of its column, or the empty string when the row is shorter.\<close>

lemma original_data_dict_cell:
  "distinct column_headers \<Longrightarrow> i < length column_headers \<Longrightarrow>
   map_of (original_data_dict column_headers row_values) (column_headers ! i)
     = Some (JStr (if i < length row_values then row_values ! i else []))"
  unfolding original_data_dict_def
  using foldl_update_cell
    [of column_headers i "\<lambda>i. JStr (if i < length row_values then row_values ! i else [])" "[]" 0]
  by simp




text \<open>
  C4, as stated, fails: the condition of the loop has no test for an empty value. For
  the stored location \<open>Chennai\<close> and the answer \<open>{"Location": ""}\<close> the empty string
  replaces the stored value, \<open>has_changed\<close> becomes true and the cell is marked.
\<close>

theorem merge_empty_string_overwrites:
  "merge_items [''Location''] 5 [(''Location'', JStr [])]
     (original_data_dict [''Location''] [''Chennai''], False, [])
   = ([(''Location'', JStr [])], True, [(5, 1)])"
  by (simp add: original_data_dict_def)

text \<open>
  C4, amended. In the merge of an answer with distinct keys, a returned key overwrites
  the merged copy exactly when the key is in the copy, its new value is not the sentinel
  \<open>N/A\<close> and differs from the current value; then the copy holds the new value.
  Otherwise the copy keeps what it held for the key. An empty string is a value like
  any other.
\<close>

theorem merge_overwrite_condition:
  assumes "distinct (map fst items)"
    and "(key, new_value) \<in> set items"
    and "merge_items column_headers row items (merged_data, False, [])
           = (merged', has_changed, cells_to_format)"
  shows "map_of merged' key =
     (if key \<in> set (map fst merged_data) \<and> new_value \<noteq> JStr ''N/A''
          \<and> map_of merged_data key \<noteq> Some new_value
      then Some new_value else map_of merged_data key)"
proof -
  from assms(3) have "merged' = fst (merge_items column_headers row items (merged_data, False, []))"
    by simp
  with merge_items_key [OF assms(1) assms(2)] show ?thesis by simp
qed

theorem merge_overwrite_condition_witness:
  "distinct (map fst [(''Location'', JStr []), (''Duration'', JStr ''N/A'')]) \<and>
   (''Duration'', JStr ''N/A'') \<in> set [(''Location'', JStr []), (''Duration'', JStr ''N/A'')] \<and>
   merge_items [''Location'', ''Duration''] 5 [(''Location'', JStr []), (''Duration'', JStr ''N/A'')]
     ([(''Location'', JStr ''Chennai''), (''Duration'', JStr ''6 months'')], False, [])
   = ([(''Location'', JStr []), (''Duration'', JStr ''6 months'')], True, [(5, 1)]) \<and>
   map_of [(''Location'', JStr []), (''Duration'', JStr ''6 months'')] ''Duration''
     = Some (JStr ''6 months'')"
  using merge_overwrite_condition [of "[(''Location'', JStr []), (''Duration'', JStr ''N/A'')]"
      "''Duration''" "JStr ''N/A''" "[''Location'', ''Duration'']" 5
      "[(''Location'', JStr ''Chennai''), (''Duration'', JStr ''6 months'')]"
      "[(''Location'', JStr []), (''Duration'', JStr ''6 months'')]" True "[(5, 1)]"]
  by simp

section \<open>The loop: recording, exceptions and appended rows\<close>

lemma appended_threads_append:
  "appended_threads (xs @ ys) = appended_threads xs @ appended_threads ys"
  by (induction xs rule: appended_threads.induct) simp_all

lemma save_fields:
  "calls (save m st) = calls st"
  "existing_thread_ids (save m st) = existing_thread_ids st"
  "new_opportunities_to_notify (save m st) = new_opportunities_to_notify st"
  "updated_opportunities_to_notify (save m st) = updated_opportunities_to_notify st"
  by (simp_all add: save_def save_processed_email_def Let_def)

lemma save_records: "m \<in> set (processed_email_ids (save m st))"
  by (simp add: save_def save_processed_email_def Let_def)

lemma update_path_keeps:
  assumes "update_path p d st = (b, st')"
  shows "processed_email_ids st' = processed_email_ids st"
    and "id_file st' = id_file st"
    and "existing_thread_ids st' = existing_thread_ids st"
    and "new_opportunities_to_notify st' = new_opportunities_to_notify st"
    and "appended_threads (calls st') = appended_threads (calls st)"
  using assms
  by (auto simp: update_path_def Let_def appended_threads_append
      split: sum.splits option.splits prod.splits if_splits)

lemma update_path_skip:
  "update_path p d st = (False, st') \<Longrightarrow> worksheet_find p (ed_threadId d) = Inr None \<and> st' = st"
  by (auto simp: update_path_def Let_def split: sum.splits option.splits prod.splits if_splits)

lemma new_path_Inr:
  assumes "new_path p d st = Inr st'"
  shows "processed_email_ids st' = processed_email_ids st"
    and "existing_thread_ids st \<subseteq> existing_thread_ids st'"
    and "appended_threads (calls st') = appended_threads (calls st)
         \<or> (appended_threads (calls st') = appended_threads (calls st) @ [JStr (ed_threadId d)]
             \<and> ed_threadId d \<in> existing_thread_ids st')"
    and "id_file st' = id_file st"
  using assms
  by (auto simp: new_path_def Let_def appended_threads_append format_row_from_json_def
      split: option.splits if_splits)

lemma new_path_Inl:
  assumes "new_path p d st = Inl (e, st')"
  shows "appended_threads (calls st') = appended_threads (calls st) @ [JStr (ed_threadId d)]"
  using assms
  by (auto simp: new_path_def Let_def appended_threads_append format_row_from_json_def
      split: option.splits if_splits)

text \<open>The five ways in which the body of the loop ends.\<close>

lemma process_message_cases:
  "(m \<in> set (processed_email_ids st) \<and> process_message p m st = Inr st) \<or>
   process_message p m st = Inr (save m st) \<or>
   (\<exists>e. process_message p m st = Inl (e, st)) \<or>
   (\<exists>md d b st1. get_email_metadata p m = Some md \<and> ed_threadId d = md_threadId md \<and>
       ed_threadId d \<in> existing_thread_ids st \<and> update_path p d st = (b, st1) \<and>
       process_message p m st = Inr (if b then save m st1 else st1)) \<or>
   (\<exists>d. ed_threadId d \<notin> existing_thread_ids st \<and>
       process_message p m st
         = (case new_path p d st of Inl abort \<Rightarrow> Inl abort | Inr st1 \<Rightarrow> Inr (save m st1)))"
proof (cases "m \<in> set (processed_email_ids st)")
  case True
  then show ?thesis by (simp add: process_message_def)
next
  case False
  show ?thesis
  proof (cases "get_email_metadata p m")
    case None
    with False show ?thesis by (simp add: process_message_def)
  next
    case (Some md)
    define search where "search = py_lower (md_subject md @ '' '' @ md_body md)"
    define d where "d = \<lparr>ed_id = md_id md, ed_threadId = md_threadId md,
        ed_sender_raw = md_sender_raw md, ed_sender_email = md_sender_email md,
        ed_subject = md_subject md, ed_body = md_body md,
        ed_attachment_text = (if md_attachment_ids md \<noteq> []
                    then fetch_and_parse_attachments p m (md_attachment_ids md) else [])\<rparr>"
    have tid: "ed_threadId d = md_threadId md" by (simp add: d_def)
    consider (filtered) "\<not> list_ex (\<lambda>domain. py_in domain (md_sender_email md)) TRUSTED_DOMAINS
          \<or> \<not> list_ex (\<lambda>keyword. py_in keyword search) OPPORTUNITY_KEYWORDS
          \<or> is_opportunity_ai_check p search = Inr False"
      | (raises) e where "list_ex (\<lambda>domain. py_in domain (md_sender_email md)) TRUSTED_DOMAINS"
          "list_ex (\<lambda>keyword. py_in keyword search) OPPORTUNITY_KEYWORDS"
          "is_opportunity_ai_check p search = Inl e"
      | (passes) "list_ex (\<lambda>domain. py_in domain (md_sender_email md)) TRUSTED_DOMAINS"
          "list_ex (\<lambda>keyword. py_in keyword search) OPPORTUNITY_KEYWORDS"
          "is_opportunity_ai_check p search = Inr True"
      by (cases "is_opportunity_ai_check p search") auto
    then show ?thesis
    proof cases
      case filtered
      with False Some have "process_message p m st = Inr (save m st)"
        unfolding process_message_def search_def by (auto simp: Let_def)
      then show ?thesis by simp
    next
      case raises
      with False Some have "process_message p m st = Inl (e, st)"
        unfolding process_message_def search_def by (simp add: Let_def)
      then show ?thesis by blast
    next
      case passes
      show ?thesis
      proof (cases "ed_threadId d \<in> existing_thread_ids st")
        case True
        obtain b st1 where up: "update_path p d st = (b, st1)" by (cases "update_path p d st")
        from passes False Some True up
        have "process_message p m st = Inr (if b then save m st1 else st1)"
          unfolding process_message_def search_def d_def by (simp add: Let_def)
        with Some tid True up show ?thesis by blast
      next
        case nonmember: False
        from passes False Some nonmember
        have "process_message p m st
            = (case new_path p d st of Inl abort \<Rightarrow> Inl abort | Inr st1 \<Rightarrow> Inr (save m st1))"
          unfolding process_message_def search_def d_def by (simp add: Let_def)
        with nonmember show ?thesis by blast
      qed
    qed
  qed
qed

text \<open>
  When the loop goes on after a message that was not in the skip-set, the message is
  recorded as processed in every case but one: its thread is among the known threads and
  \<open>worksheet.find\<close> finds no cell.
\<close>

lemma process_message_records:
  assumes "process_message p m st = Inr st'"
  shows "m \<in> set (processed_email_ids st') \<or>
         (\<exists>md. get_email_metadata p m = Some md \<and> md_threadId md \<in> existing_thread_ids st \<and>
               worksheet_find p (md_threadId md) = Inr None \<and> st' = st)"
proof -
  consider (skip) "m \<in> set (processed_email_ids st)" "process_message p m st = Inr st"
    | (saved) "process_message p m st = Inr (save m st)"
    | (raises) e where "process_message p m st = Inl (e, st)"
    | (update) md d b st1 where "get_email_metadata p m = Some md" "ed_threadId d = md_threadId md"
        "ed_threadId d \<in> existing_thread_ids st" "update_path p d st = (b, st1)"
        "process_message p m st = Inr (if b then save m st1 else st1)"
    | (new) d where "ed_threadId d \<notin> existing_thread_ids st"
        "process_message p m st
           = (case new_path p d st of Inl abort \<Rightarrow> Inl abort | Inr st1 \<Rightarrow> Inr (save m st1))"
    using process_message_cases [of m st p] by blast
  then show ?thesis
  proof cases
    case skip
    with assms show ?thesis by simp
  next
    case saved
    with assms show ?thesis by (auto simp: save_records)
  next
    case raises
    with assms show ?thesis by simp
  next
    case update
    show ?thesis
    proof (cases b)
      case True
      with update assms show ?thesis by (auto simp: save_records)
    next
      case False
      with update have "update_path p d st = (False, st1)" by simp
      from update_path_skip [OF this] update assms False show ?thesis by auto
    qed
  next
    case new
    with assms show ?thesis by (cases "new_path p d st") (auto simp: save_records)
  qed
qed

text \<open>
  The thread identifiers of the appended rows stay distinct and stay among the known
  threads.
\<close>

lemma process_message_appends:
  assumes inv: "distinct (appended_threads (calls st))"
      "set (appended_threads (calls st)) \<subseteq> JStr ` existing_thread_ids st"
  shows "process_message p m st = Inr st' \<Longrightarrow>
           distinct (appended_threads (calls st')) \<and>
           set (appended_threads (calls st')) \<subseteq> JStr ` existing_thread_ids st'"
    and "process_message p m st = Inl (e, st') \<Longrightarrow> distinct (appended_threads (calls st'))"
proof -
  consider (skip) "m \<in> set (processed_email_ids st)" "process_message p m st = Inr st"
    | (saved) "process_message p m st = Inr (save m st)"
    | (raises) e where "process_message p m st = Inl (e, st)"
    | (update) md d b st1 where "get_email_metadata p m = Some md" "ed_threadId d = md_threadId md"
        "ed_threadId d \<in> existing_thread_ids st" "update_path p d st = (b, st1)"
        "process_message p m st = Inr (if b then save m st1 else st1)"
    | (new) d where "ed_threadId d \<notin> existing_thread_ids st"
        "process_message p m st
           = (case new_path p d st of Inl abort \<Rightarrow> Inl abort | Inr st1 \<Rightarrow> Inr (save m st1))"
    using process_message_cases [of m st p] by blast
  then have "(process_message p m st = Inr st' \<longrightarrow>
           distinct (appended_threads (calls st')) \<and>
           set (appended_threads (calls st')) \<subseteq> JStr ` existing_thread_ids st') \<and>
      (process_message p m st = Inl (e, st') \<longrightarrow> distinct (appended_threads (calls st')))"
  proof cases
    case skip
    with inv show ?thesis by auto
  next
    case saved
    with inv show ?thesis by (auto simp: save_fields)
  next
    case raises
    with inv show ?thesis by auto
  next
    case update
    note keeps = update_path_keeps(3,5) [OF update(4)]
    from update(5) inv keeps show ?thesis by (auto simp: save_fields)
  next
    case new
    have fresh: "JStr (ed_threadId d) \<notin> set (appended_threads (calls st))"
      using inv(2) new(1) by auto
    show ?thesis
    proof (cases "new_path p d st")
      case (Inl abort)
      obtain e1 s1 where abort: "abort = (e1, s1)" by (cases abort)
      from new_path_Inl [OF Inl [unfolded abort]] fresh inv(1)
      have "distinct (appended_threads (calls s1))" by simp
      with new(2) Inl abort show ?thesis by auto
    next
      case (Inr st1)
      note facts = new_path_Inr(2,3) [OF Inr]
      from facts(1) inv(2)
      have sub: "set (appended_threads (calls st)) \<subseteq> JStr ` existing_thread_ids st1"
        by blast
      from facts(2) fresh inv(1) sub
      have "distinct (appended_threads (calls st1)) \<and>
            set (appended_threads (calls st1)) \<subseteq> JStr ` existing_thread_ids st1"
        by auto
      with new(2) Inr show ?thesis by (auto simp: save_fields)
    qed
  qed
  then show "process_message p m st = Inr st' \<Longrightarrow>
           distinct (appended_threads (calls st')) \<and>
           set (appended_threads (calls st')) \<subseteq> JStr ` existing_thread_ids st'"
    and "process_message p m st = Inl (e, st') \<Longrightarrow> distinct (appended_threads (calls st'))"
    by blast+
qed

lemma run_loop_appends:
  assumes "distinct (appended_threads (calls st))"
      "set (appended_threads (calls st)) \<subseteq> JStr ` existing_thread_ids st"
  shows "distinct (appended_threads (calls (outcome_state (run_loop steps i messages st)))) \<and>
     (\<forall>st'. run_loop steps i messages st = Inr st' \<longrightarrow>
        set (appended_threads (calls st')) \<subseteq> JStr ` existing_thread_ids st')"
  using assms
proof (induction messages arbitrary: st i)
  case Nil
  then show ?case by (simp add: outcome_state_def)
next
  case (Cons m messages)
  show ?case
  proof (cases "process_message (steps i) m st")
    case (Inl abort)
    obtain e s where abort: "abort = (e, s)" by (cases abort)
    from process_message_appends(2) [OF Cons.prems Inl [unfolded abort]] Inl abort
    show ?thesis by (simp add: outcome_state_def)
  next
    case (Inr st1)
    from process_message_appends(1) [OF Cons.prems Inr]
    have "distinct (appended_threads (calls st1))"
      "set (appended_threads (calls st1)) \<subseteq> JStr ` existing_thread_ids st1" by blast+
    from Cons.IH [OF this, of "Suc i"] Inr show ?thesis by simp
  qed
qed

lemmas loop_defs = process_message_def is_opportunity_ai_check_def update_path_def new_path_def
  update_details_with_ai_def save_def save_processed_email_def notify_def Let_def
  TRUSTED_DOMAINS_def OPPORTUNITY_KEYWORDS_def py_lower_def lower_char_def char_of_def bit_Suc_0_iff

lemmas scenario_defs = office_def accepted_def quiet_def internship_mail_def followup_mail_def

lemma office_answers:
  "extract_initial_details_with_ai office_loads (Inr reply_8_of_10)
     = Some [(''Role Title'', JStr ''Intern''), (relevance_key, JStr ''8'')]"
  "parse_ai_response office_loads reply_deadline
     = Inr (Some [(''Application Deadline'', JStr ''Friday'')])"
  by (simp_all add: extract_initial_details_with_ai_def parse_ai_response_def py_find_def
      py_rfind_def py_slice_def office_loads_def score_loads_def reply_defs reply_deadline_def
      validate_relevance_def round_score_examples str_small relevance_key_def)

text \<open>
  C1. In the run \<open>row_removed\<close> the message \<open>m1\<close> is not in the skip-set, passes the
  filters and belongs to a known thread for which \<open>worksheet.find\<close> finds no cell. The
  loop goes on with the \<open>continue\<close> of that branch and the run completes, and \<open>m1\<close> has
  not been recorded: the set of processed identifiers is empty and the file has not been
  written. In every other case the message is recorded (lemma
  \<open>process_message_records\<close>).
\<close>

theorem unfound_row_leaves_message_unrecorded:
  "main row_removed None =
     Inr \<lparr>processed_email_ids = [], id_file = None, existing_thread_ids = {''t1''},
          new_opportunities_to_notify = [], updated_opportunities_to_notify = [], calls = []\<rparr>"
  by (simp add: main_def row_removed_def load_processed_emails_def loop_defs scenario_defs)

text \<open>
  C6. In the run \<open>classifier_outage\<close> the model raises on the classification call of the
  first message, and in the run \<open>append_outage\<close> the sheet raises on
  \<open>worksheet.append_row\<close>. Neither call is inside a \<open>try\<close>: the exception ends the run,
  the first message is not recorded, the second message is not looked at and no
  notification is sent.
\<close>

theorem uncaught_provider_exception_ends_run:
  "main classifier_outage None =
     Inl (ProviderError,
          \<lparr>processed_email_ids = [], id_file = None, existing_thread_ids = {},
            new_opportunities_to_notify = [], updated_opportunities_to_notify = [], calls = []\<rparr>) \<and>
   main append_outage None =
     Inl (ProviderError,
          \<lparr>processed_email_ids = [], id_file = None, existing_thread_ids = {},
            new_opportunities_to_notify = [], updated_opportunities_to_notify = [],
            calls = [AppendRow (format_row_from_json ''2025-06-01 09:00:00'' ''t1''
               \<lparr>ed_id = ''m1'', ed_threadId = ''t1'',
                 ed_sender_raw = ''Placement Office <placement@iitm.ac.in>'',
                 ed_sender_email = ''placement@iitm.ac.in'',
                 ed_subject = ''Summer internship'', ed_body = ''Apply by Friday.'',
                 ed_attachment_text = []\<rparr>
               [(''Role Title'', JStr ''Intern''), (relevance_key, JStr ''8'')])]\<rparr>)"
  by (simp add: main_def classifier_outage_def append_outage_def load_processed_emails_def
      loop_defs scenario_defs relevance_examples)

lemma two_in_thread_run:
  "main two_in_thread None =
     Inr \<lparr>processed_email_ids = [''m1'', ''m2''], id_file = Some (IdList [''m1'', ''m2'']),
          existing_thread_ids = {''t1''},
          new_opportunities_to_notify = [[(''Role Title'', JStr ''Intern''), (relevance_key, JStr ''8'')]],
          updated_opportunities_to_notify =
            [(original_data_dict sheet_headers sheet_row,
              AList.update ''Application Deadline'' (JStr ''Friday'')
                (original_data_dict sheet_headers sheet_row))],
          calls = [AppendRow (map JStr sheet_row),
                   UpdateRow 4 (map JStr (sheet_row[2 := ''Friday''])),
                   FormatCells [(4, 3)], SendMessage]\<rparr>"
  by (simp add: main_def two_in_thread_def load_processed_emails_def loop_defs scenario_defs
      office_answers original_data_dict_def final_row_values_def relevance_key_def
      sheet_headers_def sheet_row_def format_row_from_json_def dict_get_def)

lemma notify_fields:
  "appended_threads (calls (notify st)) = appended_threads (calls st)"
  "existing_thread_ids (notify st) = existing_thread_ids st"
  by (simp_all add: notify_def appended_threads_append)

text \<open>
  C10. In every run, the rows passed to \<open>worksheet.append_row\<close> carry distinct thread
  identifiers, whether the run completes or is ended by an exception: at most one row is
  appended per thread. When the run completes, every thread for which a row was appended
  is in the set of known threads, which is why a later message of the thread takes the
  update path.
\<close>

theorem one_append_per_thread:
  "distinct (appended_threads (calls (outcome_state (main env start_file)))) \<and>
   (\<forall>st'. main env start_file = Inr st' \<longrightarrow>
      set (appended_threads (calls st')) \<subseteq> JStr ` existing_thread_ids st')"
proof -
  obtain loaded f where load: "load_processed_emails (age_of_run env) 7 start_file = (loaded, f)"
    by (cases "load_processed_emails (age_of_run env) 7 start_file")
  define st0 where "st0 = \<lparr>processed_email_ids = [], id_file = f, existing_thread_ids = {},
      new_opportunities_to_notify = [], updated_opportunities_to_notify = [], calls = []\<rparr>"
  show ?thesis
  proof (cases loaded)
    case (Inl e)
    with load have "main env start_file = Inl (e, st0)"
      by (simp add: main_def st0_def)
    then show ?thesis by (simp add: outcome_state_def st0_def)
  next
    case (Inr ids)
    show ?thesis
    proof (cases "col_values env")
      case (Inl e)
      with load Inr have "main env start_file = Inl (e, st0\<lparr>processed_email_ids := ids\<rparr>)"
        by (simp add: main_def st0_def)
      then show ?thesis by (simp add: outcome_state_def st0_def)
    next
      case column: (Inr column)
      define st1 where "st1 = st0\<lparr>processed_email_ids := ids,
          existing_thread_ids := set (drop 3 column)\<rparr>"
      have start: "distinct (appended_threads (calls st1))"
        "set (appended_threads (calls st1)) \<subseteq> JStr ` existing_thread_ids st1"
        by (simp_all add: st1_def st0_def)
      show ?thesis
      proof (cases "get_emails env = []")
        case True
        with load Inr column have "main env start_file = Inr st1"
          by (simp add: main_def st0_def st1_def)
        with start show ?thesis by (simp add: outcome_state_def)
      next
        case False
        note loop = run_loop_appends [OF start, of "steps_of_run env" 0 "get_emails env"]
        show ?thesis
        proof (cases "run_loop (steps_of_run env) 0 (get_emails env) st1")
          case (Inl abort)
          with load Inr column False have "main env start_file = Inl abort"
            by (simp add: main_def st0_def st1_def)
          with loop Inl show ?thesis by simp
        next
          case ended: (Inr st2)
          with load Inr column False have "main env start_file = Inr (notify st2)"
            by (simp add: main_def st0_def st1_def)
          with loop ended show ?thesis by (simp add: outcome_state_def notify_fields)
        qed
      qed
    qed
  qed
qed

text \<open>
  The run \<open>two_in_thread\<close>: the first message appends the row of the thread \<open>t1\<close>, the
  second message of the thread updates that row.
\<close>

theorem one_append_per_thread_witness:
  "main two_in_thread None = Inr (outcome_state (main two_in_thread None)) \<and>
   appended_threads (calls (outcome_state (main two_in_thread None))) = [JStr ''t1''] \<and>
   distinct (appended_threads (calls (outcome_state (main two_in_thread None)))) \<and>
   set (appended_threads (calls (outcome_state (main two_in_thread None))))
     \<subseteq> JStr ` existing_thread_ids (outcome_state (main two_in_thread None))"
  using one_append_per_thread [of two_in_thread None]
  by (simp add: two_in_thread_run outcome_state_def sheet_row_def)

section \<open>Running twice\<close>










end
